theory Spec2Isabelle
  imports Main
begin

section \<open>Python values used by the bridge\<close>

text \<open>
  A Python \<open>str\<close> is a sequence of Unicode code points and a \<open>bytes\<close> object a
  sequence of octets. Isabelle's \<open>char\<close> is an octet, so \<open>bytes\<close> are char lists and
  \<open>str\<close> values are lists of code points. \<open>py\<close> embeds the ASCII literals of the
  source text.
\<close>

type_synonym str = "nat list"
type_synonym bytes = "char list"

definition py :: "string \<Rightarrow> str" where
  "py cs = map of_char cs"

text \<open>Truthiness of an \<open>Optional[str]\<close>: \<open>None\<close> and the empty string are falsy.\<close>

fun truthy :: "str option \<Rightarrow> bool" where
  "truthy None = False"
| "truthy (Some s) = (s \<noteq> [])"

text \<open>
  The exception classes that matter here. \<open>KeyboardInterrupt\<close> and \<open>SystemExit\<close>
  derive from \<open>BaseException\<close> only; \<open>Exception\<close> stands for every class below
  \<open>Exception\<close> (with its rendering), \<open>OtherBaseException\<close> for the remaining direct
  descendants of \<open>BaseException\<close>.
\<close>

datatype exn =
    KeyboardInterrupt
  | SystemExit int
  | Exception str
  | OtherBaseException str

section \<open>Configuration and constructor arguments\<close>

text \<open>
  \<open>blok_mcp.config.config\<close> is read-only input of both entrypoints; only the three
  credential attributes are read by the code modelled here.
\<close>

record config_t =
  access_token :: "str option"
  email :: "str option"
  password :: "str option"

text \<open>The keyword arguments handed to \<open>BlokMCPServer(...)\<close>.\<close>

record server_args =
  pre_auth_token :: "str option"
  auto_auth_email :: "str option"
  auto_auth_password :: "str option"

text \<open>\<open>__main__.main\<close>, lines 30 to 32 and the argument list of lines 34 to 38.\<close>

definition main_args :: "config_t \<Rightarrow> server_args" where
  "main_args cfg =
     (let pre_auth_token = (if truthy (access_token cfg) then access_token cfg else None);
          auto_auth_email = (if truthy (email cfg) \<and> truthy (password cfg) then email cfg else None);
          auto_auth_password = (if truthy (email cfg) \<and> truthy (password cfg) then password cfg else None)
      in \<lparr>pre_auth_token = pre_auth_token,
          auto_auth_email = auto_auth_email,
          auto_auth_password = auto_auth_password\<rparr>)"

text \<open>\<open>http_server.get_mcp_server\<close>, lines 35 to 37 and the argument list of lines 39 to 43.\<close>

definition get_mcp_server_args :: "config_t \<Rightarrow> server_args" where
  "get_mcp_server_args cfg =
     (let pre_auth_token = (if truthy (access_token cfg) then access_token cfg else None);
          auto_auth_email = (if truthy (email cfg) \<and> truthy (password cfg) then email cfg else None);
          auto_auth_password = (if truthy (email cfg) \<and> truthy (password cfg) then password cfg else None)
      in \<lparr>pre_auth_token = pre_auth_token,
          auto_auth_email = auto_auth_email,
          auto_auth_password = auto_auth_password\<rparr>)"

datatype AuthenticationPosture =
    PreAuthToken str
  | AutoLogin str str
  | Unauthenticated

text \<open>
  Modelled from the spec: the class \<open>BlokMCPServer\<close> (module \<open>blok_mcp.mcp_server\<close>) is
  not part of the sources at hand, so the posture a server is built with is read off its
  three constructor arguments in the priority order of the specification's section 4.1:
  a token first, then a complete email and password pair, otherwise unauthenticated.
\<close>

fun posture_of_args :: "server_args \<Rightarrow> AuthenticationPosture" where
  "posture_of_args a =
     (case pre_auth_token a of
        Some t \<Rightarrow> PreAuthToken t
      | None \<Rightarrow>
          (case (auto_auth_email a, auto_auth_password a) of
             (Some e, Some p) \<Rightarrow> AutoLogin e p
           | _ \<Rightarrow> Unauthenticated))"

definition resolve_main :: "config_t \<Rightarrow> AuthenticationPosture" where
  "resolve_main cfg = posture_of_args (main_args cfg)"

definition resolve_http :: "config_t \<Rightarrow> AuthenticationPosture" where
  "resolve_http cfg = posture_of_args (get_mcp_server_args cfg)"

section \<open>Text decoding\<close>

text \<open>
  \<open>bytes.decode()\<close> with its defaults: strict UTF-8. Shortest form only, no surrogates,
  nothing above U+10FFFF; any other input raises \<open>UnicodeDecodeError\<close>.
\<close>

definition continuation :: "nat \<Rightarrow> bool" where
  "continuation b = (128 \<le> b \<and> b \<le> 191)"

fun utf8_decode :: "nat list \<Rightarrow> str option" where
  "utf8_decode [] = Some []"
| "utf8_decode (b # bs) =
     (if b < 128 then map_option (Cons b) (utf8_decode bs)
      else if 194 \<le> b \<and> b \<le> 223 then
        (case bs of
           c1 # r \<Rightarrow>
             if continuation c1
             then map_option (Cons ((b - 192) * 64 + (c1 - 128))) (utf8_decode r)
             else None
         | _ \<Rightarrow> None)
      else if 224 \<le> b \<and> b \<le> 239 then
        (case bs of
           c1 # c2 # r \<Rightarrow>
             if (if b = 224 then 160 else 128) \<le> c1 \<and> c1 \<le> (if b = 237 then 159 else 191)
                \<and> continuation c2
             then map_option
                    (Cons ((b - 224) * 4096 + (c1 - 128) * 64 + (c2 - 128))) (utf8_decode r)
             else None
         | _ \<Rightarrow> None)
      else if 240 \<le> b \<and> b \<le> 244 then
        (case bs of
           c1 # c2 # c3 # r \<Rightarrow>
             if (if b = 240 then 144 else 128) \<le> c1 \<and> c1 \<le> (if b = 244 then 143 else 191)
                \<and> continuation c2 \<and> continuation c3
             then map_option
                    (Cons ((b - 240) * 262144 + (c1 - 128) * 4096 + (c2 - 128) * 64 + (c3 - 128)))
                    (utf8_decode r)
             else None
         | _ \<Rightarrow> None)
      else None)"

definition UnicodeDecodeError :: exn where
  "UnicodeDecodeError = Exception (py ''UnicodeDecodeError'')"

definition decode :: "bytes \<Rightarrow> exn + str" where
  "decode bs =
     (case utf8_decode (map of_char bs) of
        None \<Rightarrow> Inl UnicodeDecodeError
      | Some s \<Rightarrow> Inr s)"

section \<open>Session manager and server objects\<close>

text \<open>
  Modelled from the spec: the class \<open>SessionManager\<close> (reached through
  \<open>blok_mcp.mcp_server\<close>) is not part of the sources at hand. Section 3 of the
  specification gives its state as a credential and the flag \<open>is_authenticated\<close>.
\<close>

record SessionManager =
  credential :: "str option"
  is_authenticated :: bool

text \<open>
  Modelled from the spec: the method \<open>SessionManager.set_token\<close> is not part of the sources
  at hand. By section 4.3 of the specification it stores the credential and sets the flag,
  and does nothing on a manager that is authenticated already. The bridge below takes the
  method as a parameter; this is the instance the specification describes.
\<close>

definition SessionManager_set_token :: "str \<Rightarrow> SessionManager \<Rightarrow> SessionManager" where
  "SessionManager_set_token v sm =
     (if is_authenticated sm then sm
      else sm\<lparr>credential := Some v, is_authenticated := True\<rparr>)"

text \<open>
  Of a \<open>BlokMCPServer\<close> the bridge reads the attribute \<open>session_manager\<close>; its attribute
  \<open>server\<close> is only handed to the protocol run loop.
\<close>

record BlokMCPServer =
  session_manager :: SessionManager

text \<open>
  \<open>SseServerTransport\<close> belongs to the MCP library. It is built from its endpoint path
  and keeps the open SSE sessions; what its methods do with them is a parameter below.
\<close>

record SseServerTransport =
  endpoint :: str
  sessions :: "nat list"

section \<open>Connections and responses\<close>

text \<open>
  An ASGI connection scope is a dictionary. \<open>type\<close> is present in every scope and
  \<open>method\<close> in every HTTP scope, and the code reads both by subscript; \<open>path\<close> and
  \<open>headers\<close> are read with \<open>get\<close> and a default, so they are optional here. Outside HTTP
  scopes the method is never read. \<open>base_url\<close> is what Starlette's \<open>Request.base_url\<close>
  renders for the scope. The request body arrives through \<open>receive\<close>, a separate argument.
\<close>

record scope =
  scope_type :: str
  scope_path :: "str option"
  scope_method :: str
  scope_headers :: "(bytes \<times> bytes) list option"
  base_url :: str

text \<open>\<open>scope.get("path", "")\<close> and \<open>scope.get("headers", [])\<close>\<close>

definition get_path :: "scope \<Rightarrow> str" where
  "get_path scope = (case scope_path scope of None \<Rightarrow> [] | Some p \<Rightarrow> p)"

definition get_headers :: "scope \<Rightarrow> (bytes \<times> bytes) list" where
  "get_headers scope = (case scope_headers scope of None \<Rightarrow> [] | Some hs \<Rightarrow> hs)"

datatype json =
    JStr str
  | JList "json list"
  | JObj "(str \<times> json) list"

record response =
  status_code :: nat
  content :: json

text \<open>
  The collaborators of the bridge that are not in this module: the configuration object,
  the constructor of \<open>BlokMCPServer\<close> (which may raise), the method \<open>set_token\<close> of its
  session manager (which is taken to return), and the two methods of the SSE transport.
  Each call site is given the environment it runs in, so that a collaborator may answer
  differently from one call to the next.
\<close>

record env =
  config :: config_t
  BlokMCPServer_init :: "server_args \<Rightarrow> exn + BlokMCPServer"
  set_token :: "str \<Rightarrow> SessionManager \<Rightarrow> SessionManager"
  connect_sse :: "scope \<Rightarrow> SseServerTransport \<Rightarrow> exn + SseServerTransport"
  handle_post_message ::
    "scope \<Rightarrow> bytes \<Rightarrow> SseServerTransport \<Rightarrow> (exn + response) \<times> SseServerTransport"

section \<open>Module state and the two singletons\<close>

text \<open>
  The module globals \<open>_mcp_server\<close> and \<open>_sse_transport\<close> hold references. Objects live
  in a store indexed by address, one store per class; the counters say how many objects of
  the class have been created, and a new object takes the next address. Object identity is
  equality of addresses.
\<close>

record process =
  mcp_server_g :: "nat option"
  sse_transport_g :: "nat option"
  server_heap :: "nat \<Rightarrow> BlokMCPServer"
  server_count :: nat
  transport_heap :: "nat \<Rightarrow> SseServerTransport"
  transport_count :: nat

definition module_init :: process where
  "module_init =
     \<lparr>mcp_server_g = None,
      sse_transport_g = None,
      server_heap = (\<lambda>_. \<lparr>session_manager = \<lparr>credential = None, is_authenticated = False\<rparr>\<rparr>),
      server_count = 0,
      transport_heap = (\<lambda>_. \<lparr>endpoint = [], sessions = []\<rparr>),
      transport_count = 0\<rparr>"

definition get_mcp_server :: "env \<Rightarrow> process \<Rightarrow> (exn + nat) \<times> process" where
  "get_mcp_server ev st =
     (case mcp_server_g st of
        Some a \<Rightarrow> (Inr a, st)
      | None \<Rightarrow>
          (case BlokMCPServer_init ev (get_mcp_server_args (config ev)) of
             Inl e \<Rightarrow> (Inl e, st)
           | Inr srv \<Rightarrow>
               (let a = server_count st
                in (Inr a,
                    st\<lparr>server_heap := (server_heap st)(a := srv),
                       server_count := Suc a,
                       mcp_server_g := Some a\<rparr>))))"

definition get_sse_transport :: "process \<Rightarrow> nat \<times> process" where
  "get_sse_transport st =
     (case sse_transport_g st of
        Some a \<Rightarrow> (a, st)
      | None \<Rightarrow>
          (let a = transport_count st
           in (a,
               st\<lparr>transport_heap :=
                    (transport_heap st)(a := \<lparr>endpoint = py ''/messages/'', sessions = []\<rparr>),
                  transport_count := Suc a,
                  sse_transport_g := Some a\<rparr>)))"

section \<open>The SSE middleware\<close>

text \<open>\<open>dict(pairs)\<close>: of two entries with one key the later one stays.\<close>

definition dict :: "(bytes \<times> bytes) list \<Rightarrow> bytes \<Rightarrow> bytes option" where
  "dict hs = map_of (rev hs)"

text \<open>
  What one handshake did: the argument of its call of \<open>set_token\<close>, if it made one, and
  either the exception it raised or the server and transport it entered the run loop with.
  The run loop itself, \<open>mcp_server.server.run\<close>, lasts as long as the client stays and is
  not part of the model.
\<close>

record sse_outcome =
  set_token_call :: "str option"
  sse_result :: "exn + nat \<times> nat"

definition handle_sse :: "env \<Rightarrow> process \<Rightarrow> scope \<Rightarrow> sse_outcome \<times> process" where
  "handle_sse ev st scope =
     (case get_mcp_server ev st of
        (Inl e, st1) \<Rightarrow> (\<lparr>set_token_call = None, sse_result = Inl e\<rparr>, st1)
      | (Inr mcp_server, st1) \<Rightarrow>
          (case get_sse_transport st1 of
             (sse, st2) \<Rightarrow>
               (let headers = dict (get_headers scope)
                in case decode (case headers ''x-session-token'' of None \<Rightarrow> [] | Some v \<Rightarrow> v) of
                     Inl e \<Rightarrow> (\<lparr>set_token_call = None, sse_result = Inl e\<rparr>, st2)
                   | Inr session_token \<Rightarrow>
                       (let srv = server_heap st2 mcp_server;
                            inject = (session_token \<noteq> []
                                      \<and> \<not> is_authenticated (session_manager srv));
                            st3 = (if inject
                                   then st2\<lparr>server_heap := (server_heap st2)
                                          (mcp_server := srv\<lparr>session_manager :=
                                             set_token ev session_token (session_manager srv)\<rparr>)\<rparr>
                                   else st2);
                            call = (if inject then Some session_token else None)
                        in case connect_sse ev scope (transport_heap st3 sse) of
                             Inl e \<Rightarrow> (\<lparr>set_token_call = call, sse_result = Inl e\<rparr>, st3)
                           | Inr t \<Rightarrow>
                               (\<lparr>set_token_call = call, sse_result = Inr (mcp_server, sse)\<rparr>,
                                st3\<lparr>transport_heap := (transport_heap st3)(sse := t)\<rparr>)))))"

definition handle_messages ::
  "env \<Rightarrow> process \<Rightarrow> scope \<Rightarrow> bytes \<Rightarrow> (exn + response) \<times> process" where
  "handle_messages ev st scope receive =
     (case get_sse_transport st of
        (sse, st1) \<Rightarrow>
          (case handle_post_message ev scope receive (transport_heap st1 sse) of
             (r, t) \<Rightarrow> (r, st1\<lparr>transport_heap := (transport_heap st1)(sse := t)\<rparr>)))"

datatype 'r dispatched =
    SseHandshake sse_outcome
  | MessageIntake "exn + response"
  | PassedThrough 'r

text \<open>
  \<open>SSEMiddleware.__call__\<close>. The wrapped application \<open>self.app\<close> is the first argument;
  it receives the scope and the body channel it was called with.
\<close>

definition SSEMiddleware_call ::
  "(scope \<Rightarrow> bytes \<Rightarrow> 'r) \<Rightarrow> env \<Rightarrow> process \<Rightarrow> scope \<Rightarrow> bytes \<Rightarrow> 'r dispatched \<times> process" where
  "SSEMiddleware_call app ev st scope receive =
     (if scope_type scope \<noteq> py ''http'' then (PassedThrough (app scope receive), st)
      else
        (let path = get_path scope
         in if (path = py ''/sse'' \<or> path = py ''/sse/'') \<and> scope_method scope = py ''GET''
            then (case handle_sse ev st scope of (r, st') \<Rightarrow> (SseHandshake r, st'))
            else if path = py ''/messages/'' \<and> scope_method scope = py ''POST''
            then (case handle_messages ev st scope receive of (r, st') \<Rightarrow> (MessageIntake r, st'))
            else (PassedThrough (app scope receive), st)))"

section \<open>The wrapped Starlette application\<close>

text \<open>The four endpoints. None of them reads the request beyond its base URL.\<close>

definition health_check :: "scope \<Rightarrow> bytes \<Rightarrow> response" where
  "health_check request receive =
     \<lparr>status_code = 200,
      content = JObj [(py ''status'', JStr (py ''ok'')), (py ''service'', JStr (py ''blok-mcp''))]\<rparr>"

text \<open>\<open>s.rstrip("/")\<close>\<close>

definition rstrip_slash :: "str \<Rightarrow> str" where
  "rstrip_slash s = rev (dropWhile (\<lambda>c. c = 47) (rev s))"

definition oauth_metadata :: "scope \<Rightarrow> bytes \<Rightarrow> response" where
  "oauth_metadata request receive =
     (let base = rstrip_slash (base_url request)
      in \<lparr>status_code = 200,
          content = JObj
            [(py ''issuer'', JStr base),
             (py ''authorization_endpoint'', JStr (base @ py ''/oauth/authorize'')),
             (py ''token_endpoint'', JStr (base @ py ''/oauth/token'')),
             (py ''response_types_supported'', JList [JStr (py ''code'')]),
             (py ''grant_types_supported'', JList [JStr (py ''authorization_code'')]),
             (py ''code_challenge_methods_supported'', JList [JStr (py ''S256'')])]\<rparr>)"

definition oauth_authorize :: "scope \<Rightarrow> bytes \<Rightarrow> response" where
  "oauth_authorize request receive =
     \<lparr>status_code = 400,
      content = JObj
        [(py ''error'', JStr (py ''unsupported_grant_type'')),
         (py ''error_description'', JStr (py ''Use X-Session-Token header''))]\<rparr>"

definition oauth_token :: "scope \<Rightarrow> bytes \<Rightarrow> response" where
  "oauth_token request receive =
     \<lparr>status_code = 400,
      content = JObj
        [(py ''error'', JStr (py ''unsupported_grant_type'')),
         (py ''error_description'', JStr (py ''Use X-Session-Token header''))]\<rparr>"

text \<open>
  Starlette's \<open>Route\<close>: a route that allows \<open>GET\<close> allows \<open>HEAD\<close> as well. A path without
  parameters is compiled to the regular expression of the path itself followed by \<open>$\<close>, which
  Python's \<open>re.match\<close> also accepts when one line feed follows.
\<close>

record route =
  route_path :: str
  route_endpoint :: "scope \<Rightarrow> bytes \<Rightarrow> response"
  route_methods :: "str list"

definition Route :: "str \<Rightarrow> (scope \<Rightarrow> bytes \<Rightarrow> response) \<Rightarrow> str list \<Rightarrow> route" where
  "Route p e methods =
     \<lparr>route_path = p,
      route_endpoint = e,
      route_methods = (if py ''GET'' \<in> set methods then methods @ [py ''HEAD''] else methods)\<rparr>"

definition path_matches :: "route \<Rightarrow> str \<Rightarrow> bool" where
  "path_matches r p = (p = route_path r \<or> p = route_path r @ [10])"

definition routes :: "route list" where
  "routes =
     [Route (py ''/health'') health_check [py ''GET''],
      Route (py ''/.well-known/oauth-authorization-server'') oauth_metadata [py ''GET''],
      Route (py ''/oauth/authorize'') oauth_authorize [py ''GET'', py ''POST''],
      Route (py ''/oauth/token'') oauth_token [py ''POST'']]"

text \<open>
  What the Starlette router does with a connection, for HTTP scopes served from the root
  path: the first route that matches path and method runs its endpoint; failing that, the
  first route that matches the path alone answers 405 Method Not Allowed with its allowed
  methods; otherwise no endpoint runs (\<open>NotRouted\<close>: a slash redirect or 404, and the
  library's own handling of non-HTTP scopes). Reading the path of a scope without one raises
  \<open>KeyError\<close>.
\<close>

datatype app_result =
    Responded response
  | MethodNotAllowed "str list"
  | NotRouted
  | AppRaised exn

definition KeyError :: "str \<Rightarrow> exn" where
  "KeyError k = Exception (py ''KeyError: '' @ k)"

definition starlette_app :: "route list \<Rightarrow> scope \<Rightarrow> bytes \<Rightarrow> app_result" where
  "starlette_app rs scope receive =
     (if scope_type scope \<noteq> py ''http'' then NotRouted
      else
        (case scope_path scope of
           None \<Rightarrow> AppRaised (KeyError (py ''path''))
         | Some p \<Rightarrow>
             (case find (\<lambda>r. path_matches r p \<and> scope_method scope \<in> set (route_methods r)) rs of
                Some r \<Rightarrow> Responded (route_endpoint r scope receive)
              | None \<Rightarrow>
                  (case find (\<lambda>r. path_matches r p) rs of
                     Some r \<Rightarrow> MethodNotAllowed (route_methods r)
                   | None \<Rightarrow> NotRouted))))"

text \<open>\<open>create_app()\<close>: the routes wrapped in the middleware.\<close>

definition create_app ::
  "env \<Rightarrow> process \<Rightarrow> scope \<Rightarrow> bytes \<Rightarrow> app_result dispatched \<times> process" where
  "create_app = SSEMiddleware_call (starlette_app routes)"

section \<open>The stdio entrypoint\<close>




section \<open>Sequences of calls in one process\<close>

text \<open>
  What can happen to the module state in HTTP mode: the two getters are called, or the
  application built by \<open>create_app\<close> is called with a connection. Nothing between the test of
  a slot and its assignment, nor between the test of \<open>is_authenticated\<close> and \<open>set_token\<close>,
  awaits, so under the cooperative scheduler each of these runs without interleaving.
\<close>

datatype call =
    GetMcpServer
  | GetSseTransport
  | Connection scope bytes

datatype call_result =
    GotMcpServer "exn + nat"
  | GotSseTransport nat
  | Dispatched "app_result dispatched"

fun do_call :: "process \<Rightarrow> env \<times> call \<Rightarrow> call_result \<times> process" where
  "do_call st (ev, GetMcpServer) =
     (case get_mcp_server ev st of (r, st') \<Rightarrow> (GotMcpServer r, st'))"
| "do_call st (ev, GetSseTransport) =
     (case get_sse_transport st of (a, st') \<Rightarrow> (GotSseTransport a, st'))"
| "do_call st (ev, Connection scope receive) =
     (case create_app ev st scope receive of (r, st') \<Rightarrow> (Dispatched r, st'))"

fun run_calls :: "process \<Rightarrow> (env \<times> call) list \<Rightarrow> call_result list \<times> process" where
  "run_calls st [] = ([], st)"
| "run_calls st (c # cs) =
     (case do_call st c of
        (r, st') \<Rightarrow> (case run_calls st' cs of (rs, st'') \<Rightarrow> (r # rs, st'')))"

text \<open>
  The server and the transport a call obtained from the getters, as far as its result
  shows them: the getters themselves, and a handshake that reached the run loop.
\<close>

fun server_of :: "call_result \<Rightarrow> nat option" where
  "server_of (GotMcpServer (Inr a)) = Some a"
| "server_of (Dispatched (SseHandshake h)) =
     (case sse_result h of Inl e \<Rightarrow> None | Inr (a, t) \<Rightarrow> Some a)"
| "server_of _ = None"

fun transport_of :: "call_result \<Rightarrow> nat option" where
  "transport_of (GotSseTransport t) = Some t"
| "transport_of (Dispatched (SseHandshake h)) =
     (case sse_result h of Inl e \<Rightarrow> None | Inr (a, t) \<Rightarrow> Some t)"
| "transport_of _ = None"

text \<open>Whether a call was a handshake that called \<open>set_token\<close>.\<close>

fun injected :: "call_result \<Rightarrow> bool" where
  "injected (Dispatched (SseHandshake h)) = (set_token_call h \<noteq> None)"
| "injected _ = False"

section \<open>Sample collaborators\<close>

text \<open>
  Instances of the parameters, for the concrete runs below. The sample constructor builds
  a server that is authenticated exactly when it is given a token; the failing one raises.
\<close>

definition sample_init :: "server_args \<Rightarrow> exn + BlokMCPServer" where
  "sample_init a =
     Inr \<lparr>session_manager =
            \<lparr>credential = pre_auth_token a, is_authenticated = (pre_auth_token a \<noteq> None)\<rparr>\<rparr>"

definition failing_init :: "server_args \<Rightarrow> exn + BlokMCPServer" where
  "failing_init a = Inl (Exception (py ''login failed''))"

definition sample_env :: "config_t \<Rightarrow> (server_args \<Rightarrow> exn + BlokMCPServer) \<Rightarrow> env" where
  "sample_env cfg init =
     \<lparr>config = cfg,
      BlokMCPServer_init = init,
      set_token = SessionManager_set_token,
      connect_sse = (\<lambda>scope t. Inr (t\<lparr>sessions := length (sessions t) # sessions t\<rparr>)),
      handle_post_message =
        (\<lambda>scope receive t. (Inr \<lparr>status_code = 202, content = JStr (py ''Accepted'')\<rparr>, t))\<rparr>"

definition no_credentials :: config_t where
  "no_credentials = \<lparr>access_token = None, email = None, password = None\<rparr>"

definition http_scope :: "string \<Rightarrow> string \<Rightarrow> (bytes \<times> bytes) list \<Rightarrow> scope" where
  "http_scope m p hs =
     \<lparr>scope_type = py ''http'',
      scope_path = Some (py p),
      scope_method = py m,
      scope_headers = Some hs,
      base_url = py ''http://localhost:8080/''\<rparr>"

text \<open>
  A failed construction, a successful one, a handshake that injects a token, and both
  getters again.
\<close>

definition sample_calls :: "(env \<times> call) list" where
  "sample_calls =
     [(sample_env no_credentials failing_init, GetMcpServer),
      (sample_env no_credentials sample_init, GetMcpServer),
      (sample_env no_credentials sample_init, GetSseTransport),
      (sample_env no_credentials sample_init,
         Connection (http_scope ''GET'' ''/sse'' [(''x-session-token'', ''abc'')]) []),
      (sample_env no_credentials failing_init, GetMcpServer),
      (sample_env no_credentials sample_init, GetSseTransport)]"

section \<open>Invariants of the module state\<close>

text \<open>
  Each slot is empty while no object of its class exists, and otherwise refers to the one
  object that does.
\<close>

definition singletons :: "process \<Rightarrow> bool" where
  "singletons st =
     ((case mcp_server_g st of
         None \<Rightarrow> server_count st = 0
       | Some a \<Rightarrow> a = 0 \<and> server_count st = 1)
      \<and> (case sse_transport_g st of
            None \<Rightarrow> transport_count st = 0
          | Some a \<Rightarrow> a = 0 \<and> transport_count st = 1))"

text \<open>The shared server exists and its session manager is authenticated.\<close>

definition authenticated :: "process \<Rightarrow> bool" where
  "authenticated st =
     (case mcp_server_g st of
        None \<Rightarrow> False
      | Some a \<Rightarrow> is_authenticated (session_manager (server_heap st a)))"

text \<open>
  How often, in a sequence of calls, a handshake called \<open>set_token\<close> and left the shared
  server authenticated: the transitions of \<open>is_authenticated\<close> from false to true that are
  due to the header.
\<close>

fun transitions :: "process \<Rightarrow> (env \<times> call) list \<Rightarrow> nat" where
  "transitions st [] = 0"
| "transitions st (c # cs) =
     (case do_call st c of
        (r, st') \<Rightarrow> (if injected r \<and> authenticated st' then 1 else 0) + transitions st' cs)"

section \<open>Facts about the embedding of literals and text\<close>

lemma py_eq_iff: "py a = py b \<longleftrightarrow> a = b"
  unfolding py_def by (simp add: inj_map_eq_map inj_on_def)

lemma py_eq_Nil: "py a = [] \<longleftrightarrow> a = []"
  by (simp add: py_def)

lemma py_line_feed: "py a @ [10] = py (a @ [CHR 0x0A])"
  by (simp add: py_def)

lemma decode_Nil: "decode [] = Inr []"
  by (simp add: decode_def)

text \<open>Only the empty byte string decodes to the empty string.\<close>

lemma utf8_decode_Nil_iff: "utf8_decode bs = Some [] \<longleftrightarrow> bs = []"
  by (cases bs) (auto split: if_splits list.splits)

lemma decode_Nil_iff: "decode bs = Inr [] \<longleftrightarrow> bs = []"
  using utf8_decode_Nil_iff [of "map of_char bs"]
  by (auto simp: decode_def split: option.splits)

section \<open>Facts about the getters\<close>

lemma get_mcp_server_cached:
  "mcp_server_g st = Some a \<Longrightarrow> get_mcp_server ev st = (Inr a, st)"
  by (simp add: get_mcp_server_def)

lemma get_mcp_server_slot:
  "get_mcp_server ev st = (Inr a, st') \<Longrightarrow> mcp_server_g st' = Some a"
  by (auto simp: get_mcp_server_def Let_def split: option.splits sum.splits)

lemma get_sse_transport_server_frame:
  "get_sse_transport st = (a, st') \<Longrightarrow>
     mcp_server_g st' = mcp_server_g st \<and> server_heap st' = server_heap st
     \<and> server_count st' = server_count st"
  by (auto simp: get_sse_transport_def Let_def split: option.splits)

lemma handle_messages_server_frame:
  "handle_messages ev st scope receive = (r, st') \<Longrightarrow>
     mcp_server_g st' = mcp_server_g st \<and> server_heap st' = server_heap st
     \<and> server_count st' = server_count st"
  by (auto simp: handle_messages_def split: prod.splits dest: get_sse_transport_server_frame)

lemma handle_sse_slots:
  "handle_sse ev st scope = (r, st') \<Longrightarrow>
     mcp_server_g st' = mcp_server_g (snd (get_mcp_server ev st))
     \<and> server_count st' = server_count (snd (get_mcp_server ev st))"
  by (auto simp: handle_sse_def Let_def split: prod.splits sum.splits if_splits
      dest: get_sse_transport_server_frame)

section \<open>The singleton invariant\<close>

lemma singletons_get_mcp_server:
  "singletons st \<Longrightarrow> get_mcp_server ev st = (r, st') \<Longrightarrow>
     singletons st' \<and> (\<forall>a. r = Inr a \<longrightarrow> a = 0)"
  by (auto simp: singletons_def get_mcp_server_def Let_def split: option.splits sum.splits)

lemma singletons_get_sse_transport:
  "singletons st \<Longrightarrow> get_sse_transport st = (a, st') \<Longrightarrow> singletons st' \<and> a = 0"
  by (auto simp: singletons_def get_sse_transport_def Let_def split: option.splits)

lemma singletons_cong:
  "mcp_server_g st' = mcp_server_g st \<Longrightarrow> server_count st' = server_count st \<Longrightarrow>
   sse_transport_g st' = sse_transport_g st \<Longrightarrow> transport_count st' = transport_count st \<Longrightarrow>
   singletons st' = singletons st"
  by (auto simp: singletons_def split: option.splits)

lemma singletons_handle_sse:
  assumes "singletons st" and "handle_sse ev st scope = (r, st')"
  shows "singletons st' \<and> (\<forall>a t. sse_result r = Inr (a, t) \<longrightarrow> a = 0 \<and> t = 0)"
proof (cases "get_mcp_server ev st")
  case (Pair x st1)
  note g1 = singletons_get_mcp_server [OF assms(1) Pair]
  then have s1: "singletons st1" by simp
  show ?thesis
  proof (cases x)
    case (Inl e)
    with Pair assms(2) have "st' = st1" and "sse_result r = Inl e"
      by (auto simp: handle_sse_def)
    with s1 show ?thesis by simp
  next
    case (Inr a)
    obtain t st2 where g2: "get_sse_transport st1 = (t, st2)" by (cases "get_sse_transport st1")
    have s2: "singletons st2" and t0: "t = 0"
      using singletons_get_sse_transport [OF s1 g2] by simp_all
    from g1 Inr have a0: "a = 0" by simp
    have "mcp_server_g st' = mcp_server_g st2 \<and> server_count st' = server_count st2
          \<and> sse_transport_g st' = sse_transport_g st2 \<and> transport_count st' = transport_count st2"
      using assms(2) Pair Inr g2
      by (auto simp: handle_sse_def Let_def split: sum.splits if_splits)
    then have "singletons st'" using s2 singletons_cong by blast
    moreover have "\<forall>a' t'. sse_result r = Inr (a', t') \<longrightarrow> a' = 0 \<and> t' = 0"
      using assms(2) Pair Inr g2 a0 t0
      by (auto simp: handle_sse_def Let_def split: sum.splits if_splits)
    ultimately show ?thesis by simp
  qed
qed

lemma singletons_handle_messages:
  assumes "singletons st" and "handle_messages ev st scope receive = (r, st')"
  shows "singletons st'"
proof -
  obtain t st1 where g: "get_sse_transport st = (t, st1)" by (cases "get_sse_transport st")
  have s1: "singletons st1" using singletons_get_sse_transport [OF assms(1) g] by simp
  have "mcp_server_g st' = mcp_server_g st1 \<and> server_count st' = server_count st1
        \<and> sse_transport_g st' = sse_transport_g st1 \<and> transport_count st' = transport_count st1"
    using assms(2) g by (auto simp: handle_messages_def split: prod.splits)
  then show ?thesis using s1 singletons_cong by blast
qed

lemma singletons_middleware:
  assumes "singletons st" and "SSEMiddleware_call app ev st scope receive = (r, st')"
  shows "singletons st'
         \<and> (\<forall>h a t. r = SseHandshake h \<and> sse_result h = Inr (a, t) \<longrightarrow> a = 0 \<and> t = 0)"
  using assms
  by (auto simp: SSEMiddleware_call_def Let_def split: if_splits prod.splits
      dest: singletons_handle_sse singletons_handle_messages)

lemma singletons_do_call:
  assumes "singletons st" and "do_call st c = (r, st')"
  shows "singletons st' \<and> (\<forall>a. server_of r = Some a \<longrightarrow> a = 0)
         \<and> (\<forall>t. transport_of r = Some t \<longrightarrow> t = 0)"
proof (cases c)
  case (Pair ev k)
  show ?thesis
  proof (cases k)
    case GetMcpServer
    with Pair assms show ?thesis
      by (auto split: prod.splits elim: server_of.elims dest: singletons_get_mcp_server)
  next
    case GetSseTransport
    with Pair assms show ?thesis
      by (auto split: prod.splits dest: singletons_get_sse_transport)
  next
    case (Connection scope receive)
    obtain d st1 where m: "create_app ev st scope receive = (d, st1)"
      by (cases "create_app ev st scope receive")
    note s = singletons_middleware [OF assms(1) m [unfolded create_app_def]]
    from Pair Connection assms(2) m have r: "r = Dispatched d" and st': "st' = st1" by simp_all
    show ?thesis
    proof (cases d)
      case (SseHandshake h)
      with s r st' show ?thesis by (auto split: sum.splits)
    next
      case (MessageIntake x)
      with s r st' show ?thesis by simp
    next
      case (PassedThrough x)
      with s r st' show ?thesis by simp
    qed
  qed
qed

lemma singletons_run_calls:
  "singletons st \<Longrightarrow> run_calls st cs = (rs, st') \<Longrightarrow>
     singletons st' \<and> (\<forall>r \<in> set rs. \<forall>a. server_of r = Some a \<longrightarrow> a = 0)
     \<and> (\<forall>r \<in> set rs. \<forall>t. transport_of r = Some t \<longrightarrow> t = 0)"
proof (induction cs arbitrary: st rs st')
  case Nil
  then show ?case by simp
next
  case (Cons c cs)
  obtain r st1 where d: "do_call st c = (r, st1)" by (cases "do_call st c")
  obtain rs1 st2 where rc: "run_calls st1 cs = (rs1, st2)" by (cases "run_calls st1 cs")
  from Cons.prems(2) d rc have eq: "rs = r # rs1" "st' = st2" by simp_all
  note h = singletons_do_call [OF Cons.prems(1) d]
  from h have s1: "singletons st1" by simp
  note ih = Cons.IH [OF s1 rc]
  show ?case using h ih eq by auto
qed

lemma singletons_init: "singletons module_init"
  by (simp add: singletons_def module_init_def)

lemma singletons_counts: "singletons st \<Longrightarrow> server_count st \<le> 1 \<and> transport_count st \<le> 1"
  by (auto simp: singletons_def split: option.splits)

text \<open>Once the server slot is set it stays, and every later call returns what it holds.\<close>

lemma server_slot_handle_sse:
  "mcp_server_g st = Some a \<Longrightarrow> handle_sse ev st scope = (r, st') \<Longrightarrow> mcp_server_g st' = Some a"
  using handle_sse_slots [of ev st scope r st'] by (simp add: get_mcp_server_cached)

lemma server_slot_do_call:
  assumes "mcp_server_g st = Some a" and "do_call st c = (r, st')"
  shows "mcp_server_g st' = Some a \<and> (\<forall>x. r = GotMcpServer x \<longrightarrow> x = Inr a)"
proof (cases c)
  case (Pair ev k)
  show ?thesis
  proof (cases k)
    case GetMcpServer
    with Pair assms show ?thesis by (auto simp: get_mcp_server_cached)
  next
    case GetSseTransport
    with Pair assms show ?thesis
      by (auto split: prod.splits dest: get_sse_transport_server_frame)
  next
    case (Connection scope receive)
    with Pair assms show ?thesis
      by (auto simp: create_app_def SSEMiddleware_call_def Let_def split: prod.splits if_splits
          dest: server_slot_handle_sse handle_messages_server_frame)
  qed
qed

lemma server_slot_run_calls:
  "mcp_server_g st = Some a \<Longrightarrow> run_calls st cs = (rs, st') \<Longrightarrow>
     mcp_server_g st' = Some a \<and> (\<forall>x. GotMcpServer x \<in> set rs \<longrightarrow> x = Inr a)"
proof (induction cs arbitrary: st rs st')
  case Nil
  then show ?case by simp
next
  case (Cons c cs)
  obtain r st1 where d: "do_call st c = (r, st1)" by (cases "do_call st c")
  obtain rs1 st2 where rc: "run_calls st1 cs = (rs1, st2)" by (cases "run_calls st1 cs")
  from Cons.prems(2) d rc have eq: "rs = r # rs1" "st' = st2" by simp_all
  note h = server_slot_do_call [OF Cons.prems(1) d]
  from h have s1: "mcp_server_g st1 = Some a" by simp
  note ih = Cons.IH [OF s1 rc]
  show ?case using h ih eq by auto
qed

lemma do_call_got_server:
  "do_call st c = (GotMcpServer (Inr a), st') \<Longrightarrow> mcp_server_g st' = Some a"
  by (cases c; cases "snd c") (auto split: prod.splits dest: get_mcp_server_slot)

lemma after_first_server:
  "run_calls st cs = (rs1 @ GotMcpServer (Inr a) # rs2, st') \<Longrightarrow>
     \<forall>x. GotMcpServer x \<in> set rs2 \<longrightarrow> x = Inr a"
proof (induction cs arbitrary: st rs1 st')
  case Nil
  then show ?case by simp
next
  case (Cons c cs)
  obtain r st1 where d: "do_call st c = (r, st1)" by (cases "do_call st c")
  obtain rs' st2 where rc: "run_calls st1 cs = (rs', st2)" by (cases "run_calls st1 cs")
  from Cons.prems d rc have eq: "rs1 @ GotMcpServer (Inr a) # rs2 = r # rs'" by simp
  show ?case
  proof (cases rs1)
    case Nil
    with eq have r: "r = GotMcpServer (Inr a)" and rs': "rs' = rs2" by simp_all
    from d r have "mcp_server_g st1 = Some a" by (simp add: do_call_got_server)
    from server_slot_run_calls [OF this rc] rs' show ?thesis by simp
  next
    case (Cons r1 rs1')
    with eq have "rs' = rs1' @ GotMcpServer (Inr a) # rs2" by simp
    with rc Cons.IH show ?thesis by blast
  qed
qed

text \<open>
  What a call obtained from a getter is what the slot holds from then on, and a getter that
  fills its slot creates the object it returns.
\<close>

lemma get_sse_transport_slot:
  "get_sse_transport st = (a, st') \<Longrightarrow> sse_transport_g st' = Some a"
  by (auto simp: get_sse_transport_def Let_def split: option.splits)

lemma get_mcp_server_transport_frame:
  "get_mcp_server ev st = (r, st') \<Longrightarrow> sse_transport_g st' = sse_transport_g st"
  by (auto simp: get_mcp_server_def Let_def split: option.splits sum.splits)

lemma handle_sse_transport_slot:
  assumes "handle_sse ev st scope = (h, st')"
  shows "(\<forall>a t. sse_result h = Inr (a, t) \<longrightarrow> mcp_server_g st' = Some a \<and> sse_transport_g st' = Some t)
         \<and> (\<forall>t. sse_transport_g st = Some t \<longrightarrow> sse_transport_g st' = Some t)"
proof (cases "get_mcp_server ev st")
  case (Pair x st1)
  note f1 = get_mcp_server_transport_frame [OF Pair]
  show ?thesis
  proof (cases x)
    case (Inl e)
    with Pair assms f1 show ?thesis by (auto simp: handle_sse_def)
  next
    case (Inr a)
    obtain t st2 where g2: "get_sse_transport st1 = (t, st2)" by (cases "get_sse_transport st1")
    note sl2 = get_sse_transport_slot [OF g2]
    note f2 = get_sse_transport_server_frame [OF g2]
    from Pair Inr have sl1: "mcp_server_g st1 = Some a" by (simp add: get_mcp_server_slot)
    have keep: "\<forall>t'. sse_transport_g st = Some t' \<longrightarrow> t = t'"
      using f1 g2 by (auto simp: get_sse_transport_def)
    have "mcp_server_g st' = Some a \<and> sse_transport_g st' = Some t
          \<and> (\<forall>a' t'. sse_result h = Inr (a', t') \<longrightarrow> a' = a \<and> t' = t)"
      using assms Pair Inr g2 sl1 sl2 f2
      by (auto simp: handle_sse_def Let_def split: sum.splits if_splits)
    with keep show ?thesis by auto
  qed
qed

lemma handle_messages_transport_slot:
  "handle_messages ev st scope receive = (r, st') \<Longrightarrow> sse_transport_g st = Some t \<Longrightarrow>
     sse_transport_g st' = Some t"
  by (auto simp: handle_messages_def get_sse_transport_def split: prod.splits)

lemma obtained_do_call:
  assumes "do_call st c = (r, st')"
  shows "(\<forall>a. server_of r = Some a \<longrightarrow> mcp_server_g st' = Some a)
         \<and> (\<forall>t. transport_of r = Some t \<longrightarrow> sse_transport_g st' = Some t)
         \<and> (\<forall>t. sse_transport_g st = Some t \<longrightarrow> sse_transport_g st' = Some t)"
proof (cases c)
  case (Pair ev k)
  show ?thesis
  proof (cases k)
    case GetMcpServer
    with Pair assms show ?thesis
      by (auto split: prod.splits elim: server_of.elims
          dest: get_mcp_server_slot get_mcp_server_transport_frame)
  next
    case GetSseTransport
    with Pair assms show ?thesis
      by (auto simp: get_sse_transport_def Let_def split: prod.splits option.splits)
  next
    case (Connection scope receive)
    obtain d st1 where m: "SSEMiddleware_call (starlette_app routes) ev st scope receive = (d, st1)"
      by (cases "SSEMiddleware_call (starlette_app routes) ev st scope receive")
    from Pair Connection assms m have r: "r = Dispatched d" and st': "st' = st1"
      by (simp_all add: create_app_def)
    show ?thesis
    proof (cases d)
      case (SseHandshake h)
      with m have "handle_sse ev st scope = (h, st1)"
        by (auto simp: SSEMiddleware_call_def Let_def split: if_splits prod.splits)
      from handle_sse_transport_slot [OF this] r st' SseHandshake show ?thesis
        by (auto split: sum.splits)
    next
      case (MessageIntake x)
      with m have "handle_messages ev st scope receive = (x, st1)"
        by (auto simp: SSEMiddleware_call_def Let_def split: if_splits prod.splits)
      with r st' MessageIntake show ?thesis
        by (auto dest: handle_messages_transport_slot)
    next
      case (PassedThrough x)
      with m have "st1 = st"
        by (auto simp: SSEMiddleware_call_def Let_def split: if_splits prod.splits)
      with r st' PassedThrough show ?thesis by simp
    qed
  qed
qed

lemma transport_slot_run_calls:
  "sse_transport_g st = Some t \<Longrightarrow> run_calls st cs = (rs, st') \<Longrightarrow> sse_transport_g st' = Some t"
proof (induction cs arbitrary: st rs st')
  case Nil
  then show ?case by simp
next
  case (Cons c cs)
  obtain r st1 where d: "do_call st c = (r, st1)" by (cases "do_call st c")
  obtain rs1 st2 where rc: "run_calls st1 cs = (rs1, st2)" by (cases "run_calls st1 cs")
  from Cons.prems(2) d rc have eq: "st' = st2" by simp
  from obtained_do_call [OF d] Cons.prems(1) have "sse_transport_g st1 = Some t" by simp
  from Cons.IH [OF this rc] eq show ?case by simp
qed

lemma obtained_run_calls:
  "run_calls st cs = (rs, st') \<Longrightarrow>
     (\<forall>r \<in> set rs. \<forall>a. server_of r = Some a \<longrightarrow> mcp_server_g st' = Some a)
     \<and> (\<forall>r \<in> set rs. \<forall>t. transport_of r = Some t \<longrightarrow> sse_transport_g st' = Some t)"
proof (induction cs arbitrary: st rs st')
  case Nil
  then show ?case by simp
next
  case (Cons c cs)
  obtain r st1 where d: "do_call st c = (r, st1)" by (cases "do_call st c")
  obtain rs1 st2 where rc: "run_calls st1 cs = (rs1, st2)" by (cases "run_calls st1 cs")
  from Cons.prems d rc have eq: "rs = r # rs1" "st' = st2" by simp_all
  note o = obtained_do_call [OF d]
  have hs: "\<forall>a. server_of r = Some a \<longrightarrow> mcp_server_g st2 = Some a"
    using o server_slot_run_calls [OF _ rc] by blast
  have ht: "\<forall>t. transport_of r = Some t \<longrightarrow> sse_transport_g st2 = Some t"
    using o transport_slot_run_calls [OF _ rc] by blast
  from Cons.IH [OF rc] hs ht eq show ?case by simp
qed

lemma singletons_slots:
  "singletons st \<Longrightarrow>
     (\<forall>a. mcp_server_g st = Some a \<longrightarrow> a < server_count st \<and> server_count st = 1)
     \<and> (\<forall>t. sse_transport_g st = Some t \<longrightarrow> t < transport_count st \<and> transport_count st = 1)"
  by (auto simp: singletons_def split: option.splits)

lemma get_sse_transport_creates:
  "sse_transport_g (snd (get_sse_transport s)) = Some (fst (get_sse_transport s))
   \<and> (sse_transport_g s = None \<longrightarrow>
        fst (get_sse_transport s) = transport_count s
        \<and> transport_count (snd (get_sse_transport s)) = Suc (transport_count s)
        \<and> transport_heap (snd (get_sse_transport s)) (fst (get_sse_transport s))
            = \<lparr>endpoint = py ''/messages/'', sessions = []\<rparr>)
   \<and> (\<forall>t. sse_transport_g s = Some t \<longrightarrow> get_sse_transport s = (t, s))"
  by (auto simp: get_sse_transport_def Let_def split: option.splits)

lemma get_mcp_server_creates:
  "(\<forall>a s'. get_mcp_server ev s = (Inr a, s') \<longrightarrow>
       mcp_server_g s' = Some a
       \<and> (mcp_server_g s = None \<longrightarrow>
            a = server_count s \<and> server_count s' = Suc (server_count s)
            \<and> BlokMCPServer_init ev (get_mcp_server_args (config ev)) = Inr (server_heap s' a)))
   \<and> (\<forall>a. mcp_server_g s = Some a \<longrightarrow> get_mcp_server ev s = (Inr a, s))"
  by (auto simp: get_mcp_server_def Let_def split: option.splits sum.splits)

section \<open>Facts about the handshake\<close>

lemma handle_sse_authenticated:
  assumes "get_mcp_server ev st = (Inr a, st1)"
    and "is_authenticated (session_manager (server_heap st1 a))"
    and "handle_sse ev st scope = (r, st')"
  shows "set_token_call r = None \<and> server_heap st' = server_heap st1 \<and> mcp_server_g st' = Some a"
proof -
  obtain t st2 where g2: "get_sse_transport st1 = (t, st2)" by (cases "get_sse_transport st1")
  note f = get_sse_transport_server_frame [OF g2]
  from get_mcp_server_slot [OF assms(1)] have sl: "mcp_server_g st1 = Some a" .
  show ?thesis using assms g2 f sl
    by (auto simp: handle_sse_def Let_def split: sum.splits)
qed

lemma handle_sse_injects:
  assumes "handle_sse ev st scope = (r, st')" and "set_token_call r = Some tok"
  shows "\<exists>a st1 v. get_mcp_server ev st = (Inr a, st1)
           \<and> dict (get_headers scope) ''x-session-token'' = Some v \<and> v \<noteq> []
           \<and> decode v = Inr tok \<and> tok \<noteq> []
           \<and> \<not> is_authenticated (session_manager (server_heap st1 a))
           \<and> mcp_server_g st' = Some a
           \<and> session_manager (server_heap st' a)
               = set_token ev tok (session_manager (server_heap st1 a))"
proof (cases "get_mcp_server ev st")
  case (Pair x st1)
  show ?thesis
  proof (cases x)
    case (Inl e)
    with Pair assms show ?thesis by (auto simp: handle_sse_def)
  next
    case (Inr a)
    obtain t st2 where g2: "get_sse_transport st1 = (t, st2)" by (cases "get_sse_transport st1")
    note f = get_sse_transport_server_frame [OF g2]
    from Pair Inr have sl: "mcp_server_g st1 = Some a" by (simp add: get_mcp_server_slot)
    show ?thesis
    proof (cases "dict (get_headers scope) ''x-session-token''")
      case None
      with Pair Inr g2 assms show ?thesis
        by (auto simp: handle_sse_def Let_def decode_Nil split: sum.splits)
    next
      case (Some v)
      show ?thesis
      proof (cases "decode v")
        case (Inl e)
        with Some Pair Inr g2 assms show ?thesis by (auto simp: handle_sse_def)
      next
        case dv: (Inr s)
        have "v \<noteq> []" if "s \<noteq> []" using that dv by (auto simp: decode_Nil)
        with Some Pair Inr g2 assms dv f sl show ?thesis
          by (auto simp: handle_sse_def Let_def split: sum.splits if_splits)
      qed
    qed
  qed
qed

text \<open>What a handshake does when the session header is absent or empty.\<close>

lemma handle_sse_no_token:
  assumes "(case dict (get_headers scope) ''x-session-token'' of None \<Rightarrow> [] | Some v \<Rightarrow> v) = []"
  shows "handle_sse ev st scope =
     (case get_mcp_server ev st of
        (Inl e, st1) \<Rightarrow> (\<lparr>set_token_call = None, sse_result = Inl e\<rparr>, st1)
      | (Inr a, st1) \<Rightarrow>
          (case get_sse_transport st1 of
             (sse, st2) \<Rightarrow>
               (case connect_sse ev scope (transport_heap st2 sse) of
                  Inl e \<Rightarrow> (\<lparr>set_token_call = None, sse_result = Inl e\<rparr>, st2)
                | Inr t \<Rightarrow>
                    (\<lparr>set_token_call = None, sse_result = Inr (a, sse)\<rparr>,
                     st2\<lparr>transport_heap := (transport_heap st2)(sse := t)\<rparr>))))"
  using assms
  by (auto simp: handle_sse_def Let_def decode_Nil split: prod.splits sum.splits)

section \<open>Injection happens at most once\<close>

lemma authenticated_do_call:
  assumes "authenticated st" and "do_call st c = (r, st')"
  shows "authenticated st' \<and> \<not> injected r"
proof -
  from assms(1) obtain a where sl: "mcp_server_g st = Some a"
    and au: "is_authenticated (session_manager (server_heap st a))"
    by (auto simp: authenticated_def split: option.splits)
  obtain ev k where c: "c = (ev, k)" by (cases c)
  show ?thesis
  proof (cases k)
    case GetMcpServer
    with c assms sl show ?thesis by (auto simp: get_mcp_server_cached)
  next
    case GetSseTransport
    with c assms(2) have "mcp_server_g st' = mcp_server_g st \<and> server_heap st' = server_heap st"
      and "\<not> injected r"
      by (auto split: prod.splits dest: get_sse_transport_server_frame)
    with sl au show ?thesis by (simp add: authenticated_def)
  next
    case (Connection scope receive)
    have g: "get_mcp_server ev st = (Inr a, st)" using sl by (rule get_mcp_server_cached)
    have "mcp_server_g st' = mcp_server_g st \<and> server_heap st' = server_heap st \<and> \<not> injected r"
      using c Connection assms(2) sl handle_sse_authenticated [OF g au]
      by (auto simp: create_app_def SSEMiddleware_call_def Let_def split: prod.splits if_splits
          dest: handle_messages_server_frame)
    with sl au show ?thesis by (simp add: authenticated_def)
  qed
qed

lemma injected_do_call:
  assumes "do_call st (ev, k) = (r, st')" and "injected r"
    and "\<forall>v sm. is_authenticated (set_token ev v sm)"
  shows "authenticated st'"
proof -
  from assms(1,2) obtain scope receive h where k: "k = Connection scope receive"
    and r: "r = Dispatched (SseHandshake h)" and h: "handle_sse ev st scope = (h, st')"
    and tc: "set_token_call h \<noteq> None"
    by (cases k)
      (auto simp: create_app_def SSEMiddleware_call_def Let_def split: prod.splits if_splits)
  from tc obtain tok where "set_token_call h = Some tok" by auto
  from handle_sse_injects [OF h this] assms(3) show ?thesis
    by (auto simp: authenticated_def)
qed

lemma authenticated_run_calls:
  "authenticated st \<Longrightarrow> filter injected (fst (run_calls st cs)) = []"
proof (induction cs arbitrary: st)
  case Nil
  then show ?case by simp
next
  case (Cons c cs)
  obtain r st1 where d: "do_call st c = (r, st1)" by (cases "do_call st c")
  from authenticated_do_call [OF Cons.prems d] Cons.IH [of st1] d show ?case
    by (cases "run_calls st1 cs") auto
qed

lemma injected_at_most_once:
  "\<forall>c \<in> set cs. \<forall>v sm. is_authenticated (set_token (fst c) v sm) \<Longrightarrow>
     length (filter injected (fst (run_calls st cs))) \<le> 1"
proof (induction cs arbitrary: st)
  case Nil
  then show ?case by simp
next
  case (Cons c cs)
  obtain r st1 where d: "do_call st c = (r, st1)" by (cases "do_call st c")
  obtain ev k where c: "c = (ev, k)" by (cases c)
  show ?case
  proof (cases "injected r")
    case True
    from Cons.prems c have "\<forall>v sm. is_authenticated (set_token ev v sm)" by simp
    with d c True have "authenticated st1" using injected_do_call by blast
    from authenticated_run_calls [OF this, of cs] d True show ?thesis
      by (cases "run_calls st1 cs") auto
  next
    case False
    from Cons.prems have "\<forall>c \<in> set cs. \<forall>v sm. is_authenticated (set_token (fst c) v sm)" by simp
    from Cons.IH [OF this, of st1] d False show ?thesis
      by (cases "run_calls st1 cs") auto
  qed
qed

lemma authenticated_transitions: "authenticated st \<Longrightarrow> transitions st cs = 0"
proof (induction cs arbitrary: st)
  case Nil
  then show ?case by simp
next
  case (Cons c cs)
  obtain r st1 where d: "do_call st c = (r, st1)" by (cases "do_call st c")
  from authenticated_do_call [OF Cons.prems d] Cons.IH [of st1] d show ?case by simp
qed

lemma transitions_at_most_once: "transitions st cs \<le> 1"
proof (induction cs arbitrary: st)
  case Nil
  then show ?case by simp
next
  case (Cons c cs)
  obtain r st1 where d: "do_call st c = (r, st1)" by (cases "do_call st c")
  show ?case
  proof (cases "injected r \<and> authenticated st1")
    case True
    then have "transitions st1 cs = 0" by (simp add: authenticated_transitions)
    with d True show ?thesis by simp
  next
    case False
    with d Cons.IH [of st1] show ?thesis by auto
  qed
qed

text \<open>When a handshake calls \<open>set_token\<close>: the converse of \<open>handle_sse_injects\<close>.\<close>

lemma handle_sse_must_inject:
  assumes "get_mcp_server ev st = (Inr a, st1)"
    and "dict (get_headers scope) ''x-session-token'' = Some v"
    and "decode v = Inr tok" and "tok \<noteq> []"
    and "\<not> is_authenticated (session_manager (server_heap st1 a))"
  shows "set_token_call (fst (handle_sse ev st scope)) = Some tok"
proof -
  obtain t st2 where g2: "get_sse_transport st1 = (t, st2)" by (cases "get_sse_transport st1")
  note f = get_sse_transport_server_frame [OF g2]
  show ?thesis using assms g2 f
    by (auto simp: handle_sse_def Let_def split: sum.splits)
qed

section \<open>Facts about the route table\<close>

lemma find_routes_full:
  "find (\<lambda>r. path_matches r p \<and> m \<in> set (route_methods r)) routes =
     (if (p = py ''/health'' \<or> p = py ''/health'' @ [10]) \<and> (m = py ''GET'' \<or> m = py ''HEAD'')
      then Some (Route (py ''/health'') health_check [py ''GET''])
      else if (p = py ''/.well-known/oauth-authorization-server''
               \<or> p = py ''/.well-known/oauth-authorization-server'' @ [10])
              \<and> (m = py ''GET'' \<or> m = py ''HEAD'')
      then Some (Route (py ''/.well-known/oauth-authorization-server'') oauth_metadata [py ''GET''])
      else if (p = py ''/oauth/authorize'' \<or> p = py ''/oauth/authorize'' @ [10])
              \<and> (m = py ''GET'' \<or> m = py ''POST'' \<or> m = py ''HEAD'')
      then Some (Route (py ''/oauth/authorize'') oauth_authorize [py ''GET'', py ''POST''])
      else if (p = py ''/oauth/token'' \<or> p = py ''/oauth/token'' @ [10]) \<and> m = py ''POST''
      then Some (Route (py ''/oauth/token'') oauth_token [py ''POST''])
      else None)"
  by (simp add: routes_def Route_def path_matches_def py_line_feed py_eq_iff)

section \<open>Concrete runs\<close>

lemmas run_defs =
  handle_sse_def handle_messages_def get_mcp_server_def get_sse_transport_def module_init_def
  sample_env_def sample_init_def failing_init_def no_credentials_def get_mcp_server_args_def
  decode_def dict_def get_headers_def get_path_def http_scope_def Let_def
  SessionManager_set_token_def continuation_def

section \<open>The claims\<close>

subsection \<open>C1: resolution of the authentication posture\<close>

text \<open>
  Claim C1, as amended. An input counts as present when it is a non-empty string; an empty
  string is treated like an absent input. With presence read this way, both entrypoints
  resolve the posture by the fixed priority: a present token gives \<open>PreAuthToken\<close> with that
  token; otherwise a present email together with a present password gives \<open>AutoLogin\<close> with
  that pair; otherwise, and in particular for a partial pair, the posture is
  \<open>Unauthenticated\<close>.
\<close>

theorem posture_priority_nonempty:
  "(access_token cfg = Some t \<and> t \<noteq> [] \<longrightarrow>
      resolve_main cfg = PreAuthToken t \<and> resolve_http cfg = PreAuthToken t)
   \<and> (\<not> truthy (access_token cfg)
        \<and> email cfg = Some e \<and> e \<noteq> [] \<and> password cfg = Some p \<and> p \<noteq> [] \<longrightarrow>
      resolve_main cfg = AutoLogin e p \<and> resolve_http cfg = AutoLogin e p)
   \<and> (\<not> truthy (access_token cfg) \<and> \<not> (truthy (email cfg) \<and> truthy (password cfg)) \<longrightarrow>
      resolve_main cfg = Unauthenticated \<and> resolve_http cfg = Unauthenticated)"
  by (auto simp: resolve_main_def resolve_http_def main_args_def get_mcp_server_args_def)

text \<open>The three examples of the specification, and a password without an email.\<close>

theorem posture_priority_nonempty_witness:
  "resolve_main \<lparr>access_token = Some (py ''t''), email = Some (py ''e''), password = None\<rparr>
     = PreAuthToken (py ''t'')
   \<and> resolve_http \<lparr>access_token = Some (py ''t''), email = Some (py ''e''), password = None\<rparr>
     = PreAuthToken (py ''t'')
   \<and> resolve_main \<lparr>access_token = None, email = Some (py ''e''), password = Some (py ''p'')\<rparr>
     = AutoLogin (py ''e'') (py ''p'')
   \<and> resolve_http \<lparr>access_token = None, email = Some (py ''e''), password = Some (py ''p'')\<rparr>
     = AutoLogin (py ''e'') (py ''p'')
   \<and> resolve_main \<lparr>access_token = None, email = Some (py ''e''), password = None\<rparr>
     = Unauthenticated
   \<and> resolve_http \<lparr>access_token = None, email = None, password = Some (py ''p'')\<rparr>
     = Unauthenticated"
  using
    posture_priority_nonempty
      [of "\<lparr>access_token = Some (py ''t''), email = Some (py ''e''), password = None\<rparr>"
        "py ''t''"]
    posture_priority_nonempty
      [of "\<lparr>access_token = None, email = Some (py ''e''), password = Some (py ''p'')\<rparr>"
        _ "py ''e''" "py ''p''"]
    posture_priority_nonempty
      [of "\<lparr>access_token = None, email = Some (py ''e''), password = None\<rparr>"]
    posture_priority_nonempty
      [of "\<lparr>access_token = None, email = None, password = Some (py ''p'')\<rparr>"]
  by (simp add: py_eq_Nil)

text \<open>
  As stated, with every given string counted as present, the claim fails: a token that is
  the empty string does not give \<open>PreAuthToken\<close>, and an email with an empty password does
  not give \<open>AutoLogin\<close>.
\<close>

theorem empty_token_is_absent:
  "resolve_main \<lparr>access_token = Some [], email = None, password = None\<rparr> \<noteq> PreAuthToken []
   \<and> resolve_http \<lparr>access_token = Some [], email = None, password = None\<rparr> \<noteq> PreAuthToken []
   \<and> resolve_http \<lparr>access_token = Some [], email = None, password = None\<rparr> = Unauthenticated
   \<and> resolve_http \<lparr>access_token = None, email = Some (py ''e''), password = Some []\<rparr>
       \<noteq> AutoLogin (py ''e'') []"
  by (simp add: resolve_main_def resolve_http_def main_args_def get_mcp_server_args_def)

subsection \<open>C5: a failed construction is not cached\<close>

text \<open>
  Claim C5. If the constructor raises while \<open>get_mcp_server\<close> fills the empty slot, the
  exception reaches the caller, the module state is as before (the slot is still empty),
  and the next call runs the constructor again: it returns and caches the new server if
  the constructor now succeeds, and raises again if it fails again.
\<close>

theorem failed_construction_not_cached:
  "mcp_server_g st = None
     \<and> BlokMCPServer_init ev (get_mcp_server_args (config ev)) = Inl e \<longrightarrow>
   get_mcp_server ev st = (Inl e, st)
   \<and> mcp_server_g (snd (get_mcp_server ev st)) = None
   \<and> (\<forall>ev' srv. BlokMCPServer_init ev' (get_mcp_server_args (config ev')) = Inr srv \<longrightarrow>
         (\<exists>a st'. get_mcp_server ev' (snd (get_mcp_server ev st)) = (Inr a, st')
            \<and> mcp_server_g st' = Some a \<and> server_heap st' a = srv))
   \<and> (\<forall>ev' e'. BlokMCPServer_init ev' (get_mcp_server_args (config ev')) = Inl e' \<longrightarrow>
         get_mcp_server ev' (snd (get_mcp_server ev st)) = (Inl e', st))"
  by (auto simp: get_mcp_server_def Let_def)

theorem failed_construction_not_cached_witness:
  "get_mcp_server (sample_env no_credentials failing_init) module_init
     = (Inl (Exception (py ''login failed'')), module_init)
   \<and> mcp_server_g (snd (get_mcp_server (sample_env no_credentials failing_init) module_init)) = None
   \<and> (\<exists>a st'. get_mcp_server (sample_env no_credentials sample_init)
                 (snd (get_mcp_server (sample_env no_credentials failing_init) module_init))
               = (Inr a, st')
         \<and> mcp_server_g st' = Some a
         \<and> server_heap st' a
             = \<lparr>session_manager = \<lparr>credential = None, is_authenticated = False\<rparr>\<rparr>)
   \<and> get_mcp_server (sample_env no_credentials failing_init)
        (snd (get_mcp_server (sample_env no_credentials failing_init) module_init))
      = (Inl (Exception (py ''login failed'')), module_init)"
proof -
  have bad: "BlokMCPServer_init (sample_env no_credentials failing_init)
         (get_mcp_server_args (config (sample_env no_credentials failing_init)))
       = Inl (Exception (py ''login failed''))"
    by (simp add: sample_env_def failing_init_def)
  have h: "mcp_server_g module_init = None
     \<and> BlokMCPServer_init (sample_env no_credentials failing_init)
         (get_mcp_server_args (config (sample_env no_credentials failing_init)))
       = Inl (Exception (py ''login failed''))"
    using bad by (simp add: module_init_def)
  have ok: "BlokMCPServer_init (sample_env no_credentials sample_init)
         (get_mcp_server_args (config (sample_env no_credentials sample_init)))
       = Inr \<lparr>session_manager = \<lparr>credential = None, is_authenticated = False\<rparr>\<rparr>"
    by (simp add: sample_env_def sample_init_def no_credentials_def get_mcp_server_args_def)
  from failed_construction_not_cached
         [of module_init "sample_env no_credentials failing_init"
           "Exception (py ''login failed'')"] h ok bad
  show ?thesis by blast
qed

subsection \<open>C7: both entrypoints pass the same arguments\<close>

text \<open>
  Claim C7. For every configuration the stdio entrypoint and the HTTP entrypoint hand the
  constructor the same \<open>pre_auth_token\<close>, \<open>auto_auth_email\<close> and \<open>auto_auth_password\<close>, so
  the two resolutions are one function of the three inputs.
\<close>

theorem entrypoints_same_arguments:
  "main_args cfg = get_mcp_server_args cfg
   \<and> pre_auth_token (main_args cfg) = pre_auth_token (get_mcp_server_args cfg)
   \<and> auto_auth_email (main_args cfg) = auto_auth_email (get_mcp_server_args cfg)
   \<and> auto_auth_password (main_args cfg) = auto_auth_password (get_mcp_server_args cfg)"
  by (simp add: main_args_def get_mcp_server_args_def)

theorem entrypoints_same_arguments_witness:
  "main_args \<lparr>access_token = Some (py ''t''), email = Some (py ''e''), password = Some []\<rparr>
     = get_mcp_server_args
         \<lparr>access_token = Some (py ''t''), email = Some (py ''e''), password = Some []\<rparr>
   \<and> main_args \<lparr>access_token = Some (py ''t''), email = Some (py ''e''), password = Some []\<rparr>
     = \<lparr>pre_auth_token = Some (py ''t''), auto_auth_email = None, auto_auth_password = None\<rparr>"
  using entrypoints_same_arguments
    [of "\<lparr>access_token = Some (py ''t''), email = Some (py ''e''), password = Some []\<rparr>"]
  by (simp add: get_mcp_server_args_def py_eq_Nil)

subsection \<open>C8: exit status of the stdio entrypoint\<close>




subsection \<open>C3: dispatch in the middleware\<close>

text \<open>
  Claim C3. Which of the three handlers receives a connection is decided by scope type,
  path and method alone, and the three cases exclude each other: an HTTP \<open>GET\<close> on \<open>/sse\<close>
  or \<open>/sse/\<close> goes to the handshake handler, an HTTP \<open>POST\<close> on \<open>/messages/\<close> to the
  message handler, and every other connection, HTTP or not, goes to the wrapped application
  with the scope and body channel it came with, leaving the module state, and so the server
  and its session manager, as it was. The wrapped application is a function of scope and
  body: in \<open>create_app\<close> it is the router over the four endpoints, none of which refers to
  the module state.
\<close>

theorem middleware_dispatch:
  "((scope_type scope = py ''http''
       \<and> (get_path scope = py ''/sse'' \<or> get_path scope = py ''/sse/'')
       \<and> scope_method scope = py ''GET'') \<longrightarrow>
      SSEMiddleware_call app ev st scope receive =
        (SseHandshake (fst (handle_sse ev st scope)), snd (handle_sse ev st scope)))
   \<and> ((scope_type scope = py ''http''
       \<and> get_path scope = py ''/messages/''
       \<and> scope_method scope = py ''POST'') \<longrightarrow>
      SSEMiddleware_call app ev st scope receive =
        (MessageIntake (fst (handle_messages ev st scope receive)),
         snd (handle_messages ev st scope receive)))
   \<and> (\<not> (scope_type scope = py ''http''
          \<and> (get_path scope = py ''/sse'' \<or> get_path scope = py ''/sse/'')
          \<and> scope_method scope = py ''GET'')
       \<and> \<not> (scope_type scope = py ''http''
          \<and> get_path scope = py ''/messages/''
          \<and> scope_method scope = py ''POST'') \<longrightarrow>
      SSEMiddleware_call app ev st scope receive = (PassedThrough (app scope receive), st))"
  by (auto simp: SSEMiddleware_call_def Let_def py_eq_iff split: prod.splits)

text \<open>
  A handshake, a message post, an unknown path, a known path with the wrong method, and a
  websocket connection on the handshake path.
\<close>

theorem middleware_dispatch_witness:
  "fst (SSEMiddleware_call (starlette_app routes) (sample_env no_credentials sample_init)
          module_init (http_scope ''GET'' ''/sse/'' []) [])
     = SseHandshake \<lparr>set_token_call = None, sse_result = Inr (0, 0)\<rparr>
   \<and> fst (SSEMiddleware_call (starlette_app routes) (sample_env no_credentials sample_init)
          module_init (http_scope ''POST'' ''/messages/'' []) [])
     = MessageIntake (Inr \<lparr>status_code = 202, content = JStr (py ''Accepted'')\<rparr>)
   \<and> SSEMiddleware_call (starlette_app routes) (sample_env no_credentials sample_init)
          module_init (http_scope ''GET'' ''/favicon.ico'' []) []
     = (PassedThrough NotRouted, module_init)
   \<and> SSEMiddleware_call (starlette_app routes) (sample_env no_credentials sample_init)
          module_init (http_scope ''POST'' ''/sse'' []) []
     = (PassedThrough NotRouted, module_init)
   \<and> SSEMiddleware_call (starlette_app routes) (sample_env no_credentials sample_init)
          module_init ((http_scope ''GET'' ''/sse'' [])\<lparr>scope_type := py ''websocket''\<rparr>) []
     = (PassedThrough NotRouted, module_init)"
proof -
  let ?ev = "sample_env no_credentials sample_init"
  let ?app = "starlette_app routes"
  have 1: "fst (handle_sse ?ev module_init (http_scope ''GET'' ''/sse/'' []))
             = \<lparr>set_token_call = None, sse_result = Inr (0, 0)\<rparr>"
    by (simp add: run_defs)
  have 2: "fst (handle_messages ?ev module_init (http_scope ''POST'' ''/messages/'' []) [])
             = Inr \<lparr>status_code = 202, content = JStr (py ''Accepted'')\<rparr>"
    by (simp add: run_defs)
  have 3: "?app (http_scope ''GET'' ''/favicon.ico'' []) [] = NotRouted"
    "?app (http_scope ''POST'' ''/sse'' []) [] = NotRouted"
    "?app ((http_scope ''GET'' ''/sse'' [])\<lparr>scope_type := py ''websocket''\<rparr>) [] = NotRouted"
    by (simp_all add: starlette_app_def http_scope_def routes_def Route_def path_matches_def
        py_line_feed py_eq_iff)
  show ?thesis
    using
      middleware_dispatch [of "http_scope ''GET'' ''/sse/'' []" ?app ?ev module_init "[]"]
      middleware_dispatch [of "http_scope ''POST'' ''/messages/'' []" ?app ?ev module_init "[]"]
      middleware_dispatch [of "http_scope ''GET'' ''/favicon.ico'' []" ?app ?ev module_init "[]"]
      middleware_dispatch [of "http_scope ''POST'' ''/sse'' []" ?app ?ev module_init "[]"]
      middleware_dispatch
        [of "(http_scope ''GET'' ''/sse'' [])\<lparr>scope_type := py ''websocket''\<rparr>" ?app ?ev
          module_init "[]"]
      1 2 3
    by (simp add: http_scope_def get_path_def py_eq_iff)
qed

subsection \<open>C10: a message post leaves the server alone\<close>

text \<open>
  Claim C10. Handling a \<open>POST\<close> on \<open>/messages/\<close> changes neither the server slot nor any
  server object, so credential and \<open>is_authenticated\<close> stay as they are; and it reads
  nothing of them: what it answers and what it does to the transport is the same in any two
  module states that agree on the transport and under any two environments that agree on
  the transport's message handler. What the run loop of the session does later with the
  delivered message is not part of the handler.
\<close>

theorem message_post_leaves_server:
  "mcp_server_g (snd (handle_messages ev st scope receive)) = mcp_server_g st
   \<and> server_heap (snd (handle_messages ev st scope receive)) = server_heap st
   \<and> server_count (snd (handle_messages ev st scope receive)) = server_count st
   \<and> (sse_transport_g st2 = sse_transport_g st \<and> transport_heap st2 = transport_heap st
        \<and> transport_count st2 = transport_count st
        \<and> handle_post_message ev2 = handle_post_message ev \<longrightarrow>
      fst (handle_messages ev2 st2 scope receive) = fst (handle_messages ev st scope receive)
      \<and> sse_transport_g (snd (handle_messages ev2 st2 scope receive))
          = sse_transport_g (snd (handle_messages ev st scope receive))
      \<and> transport_heap (snd (handle_messages ev2 st2 scope receive))
          = transport_heap (snd (handle_messages ev st scope receive))
      \<and> transport_count (snd (handle_messages ev2 st2 scope receive))
          = transport_count (snd (handle_messages ev st scope receive)))
   \<and> (scope_type scope = py ''http'' \<and> get_path scope = py ''/messages/''
        \<and> scope_method scope = py ''POST'' \<longrightarrow>
      SSEMiddleware_call app ev st scope receive =
        (MessageIntake (fst (handle_messages ev st scope receive)),
         snd (handle_messages ev st scope receive)))"
  by (auto simp: handle_messages_def get_sse_transport_def SSEMiddleware_call_def Let_def py_eq_iff
      split: prod.splits option.splits)

text \<open>
  A post arriving before and after a server with a token has been built, under two
  environments that differ in configuration and constructor.
\<close>

theorem message_post_leaves_server_witness:
  "fst (handle_messages (sample_env no_credentials failing_init)
          (snd (get_mcp_server
                  (sample_env \<lparr>access_token = Some (py ''t''), email = None, password = None\<rparr>
                     sample_init) module_init))
          (http_scope ''POST'' ''/messages/'' []) ''{}'')
     = fst (handle_messages
              (sample_env \<lparr>access_token = Some (py ''t''), email = None, password = None\<rparr>
                 sample_init) module_init
              (http_scope ''POST'' ''/messages/'' []) ''{}'')
   \<and> server_heap (snd (handle_messages (sample_env no_credentials failing_init)
          (snd (get_mcp_server
                  (sample_env \<lparr>access_token = Some (py ''t''), email = None, password = None\<rparr>
                     sample_init) module_init))
          (http_scope ''POST'' ''/messages/'' []) ''{}'')) 0
     = \<lparr>session_manager = \<lparr>credential = Some (py ''t''), is_authenticated = True\<rparr>\<rparr>"
proof -
  let ?ev = "sample_env \<lparr>access_token = Some (py ''t''), email = None, password = None\<rparr> sample_init"
  let ?ev2 = "sample_env no_credentials failing_init"
  let ?st2 = "snd (get_mcp_server ?ev module_init)"
  let ?sc = "http_scope ''POST'' ''/messages/'' []"
  have h: "sse_transport_g ?st2 = sse_transport_g module_init
        \<and> transport_heap ?st2 = transport_heap module_init
        \<and> transport_count ?st2 = transport_count module_init
        \<and> handle_post_message ?ev2 = handle_post_message ?ev"
    by (simp add: run_defs)
  have s: "server_heap ?st2 0
     = \<lparr>session_manager = \<lparr>credential = Some (py ''t''), is_authenticated = True\<rparr>\<rparr>"
    by (simp add: run_defs py_eq_Nil)
  have a: "fst (handle_messages ?ev2 ?st2 ?sc ''{}'') = fst (handle_messages ?ev module_init ?sc ''{}'')"
    using message_post_leaves_server
      [of ?ev module_init ?sc "''{}''" ?st2 ?ev2 "starlette_app routes"] h
    by blast
  have b: "server_heap (snd (handle_messages ?ev2 ?st2 ?sc ''{}'')) = server_heap ?st2"
    using message_post_leaves_server
      [of ?ev2 ?st2 ?sc "''{}''" module_init ?ev "starlette_app routes"]
    by blast
  show ?thesis using a b s by simp
qed

subsection \<open>C4: one server and one transport per process\<close>

text \<open>
  Claim C4. In every sequence of calls that starts from the freshly loaded module, whether
  the getters are called directly or by a handshake, any two calls that obtain a server
  obtain the same object, every call of \<open>get_mcp_server\<close> after a successful one succeeds
  with that object, any two calls that obtain a transport obtain the same object, and at no
  time has more than one server or more than one transport been created. What a call
  obtained is the instance the module holds: at the end of the sequence the slot refers to
  it, it is a created object, and it is the only one of its class. In any state, a getter
  that finds its slot empty creates a new object, stores it in the slot and returns it (the
  server as the constructor built it, the transport for the endpoint \<open>/messages/\<close>), and a
  getter that finds its slot filled returns what the slot holds and changes nothing.
\<close>

theorem singletons_are_shared:
  "(run_calls module_init cs = (rs, st) \<longrightarrow>
     (\<forall>r1 r2 a b. r1 \<in> set rs \<and> r2 \<in> set rs \<and> server_of r1 = Some a \<and> server_of r2 = Some b
         \<longrightarrow> a = b)
     \<and> (\<forall>rs1 a rs2 x. rs = rs1 @ GotMcpServer (Inr a) # rs2 \<and> GotMcpServer x \<in> set rs2
           \<longrightarrow> x = Inr a)
     \<and> (\<forall>r1 r2 a b. r1 \<in> set rs \<and> r2 \<in> set rs
           \<and> transport_of r1 = Some a \<and> transport_of r2 = Some b \<longrightarrow> a = b)
     \<and> server_count st \<le> 1 \<and> transport_count st \<le> 1
     \<and> (\<forall>r a. r \<in> set rs \<and> server_of r = Some a \<longrightarrow>
           mcp_server_g st = Some a \<and> a < server_count st \<and> server_count st = 1)
     \<and> (\<forall>r t. r \<in> set rs \<and> transport_of r = Some t \<longrightarrow>
           sse_transport_g st = Some t \<and> t < transport_count st \<and> transport_count st = 1))
   \<and> (\<forall>a s'. get_mcp_server ev s = (Inr a, s') \<longrightarrow>
         mcp_server_g s' = Some a
         \<and> (mcp_server_g s = None \<longrightarrow>
              a = server_count s \<and> server_count s' = Suc (server_count s)
              \<and> BlokMCPServer_init ev (get_mcp_server_args (config ev)) = Inr (server_heap s' a)))
   \<and> (\<forall>a. mcp_server_g s = Some a \<longrightarrow> get_mcp_server ev s = (Inr a, s))
   \<and> sse_transport_g (snd (get_sse_transport s)) = Some (fst (get_sse_transport s))
   \<and> (sse_transport_g s = None \<longrightarrow>
        fst (get_sse_transport s) = transport_count s
        \<and> transport_count (snd (get_sse_transport s)) = Suc (transport_count s)
        \<and> transport_heap (snd (get_sse_transport s)) (fst (get_sse_transport s))
            = \<lparr>endpoint = py ''/messages/'', sessions = []\<rparr>)
   \<and> (\<forall>t. sse_transport_g s = Some t \<longrightarrow> get_sse_transport s = (t, s))"
proof -
  have trace: "run_calls module_init cs = (rs, st) \<longrightarrow>
     (\<forall>r1 r2 a b. r1 \<in> set rs \<and> r2 \<in> set rs \<and> server_of r1 = Some a \<and> server_of r2 = Some b
         \<longrightarrow> a = b)
     \<and> (\<forall>rs1 a rs2 x. rs = rs1 @ GotMcpServer (Inr a) # rs2 \<and> GotMcpServer x \<in> set rs2
           \<longrightarrow> x = Inr a)
     \<and> (\<forall>r1 r2 a b. r1 \<in> set rs \<and> r2 \<in> set rs
           \<and> transport_of r1 = Some a \<and> transport_of r2 = Some b \<longrightarrow> a = b)
     \<and> server_count st \<le> 1 \<and> transport_count st \<le> 1
     \<and> (\<forall>r a. r \<in> set rs \<and> server_of r = Some a \<longrightarrow>
           mcp_server_g st = Some a \<and> a < server_count st \<and> server_count st = 1)
     \<and> (\<forall>r t. r \<in> set rs \<and> transport_of r = Some t \<longrightarrow>
           sse_transport_g st = Some t \<and> t < transport_count st \<and> transport_count st = 1)"
  proof
    assume rc: "run_calls module_init cs = (rs, st)"
    note s = singletons_run_calls [OF singletons_init rc]
    from s have inv: "singletons st" by simp
    note o = obtained_run_calls [OF rc]
    note sl = singletons_slots [OF inv]
    have 1: "\<forall>r1 r2 a b. r1 \<in> set rs \<and> r2 \<in> set rs
               \<and> server_of r1 = Some a \<and> server_of r2 = Some b \<longrightarrow> a = b"
      using s by blast
    have 2: "\<forall>rs1 a rs2 x. rs = rs1 @ GotMcpServer (Inr a) # rs2 \<and> GotMcpServer x \<in> set rs2
             \<longrightarrow> x = Inr a"
      using after_first_server rc by blast
    have 3: "\<forall>r1 r2 a b. r1 \<in> set rs \<and> r2 \<in> set rs
               \<and> transport_of r1 = Some a \<and> transport_of r2 = Some b \<longrightarrow> a = b"
      using s by blast
    have 4: "server_count st \<le> 1 \<and> transport_count st \<le> 1"
      using inv singletons_counts by blast
    have 5: "\<forall>r a. r \<in> set rs \<and> server_of r = Some a \<longrightarrow>
               mcp_server_g st = Some a \<and> a < server_count st \<and> server_count st = 1"
      using o sl by blast
    have 6: "\<forall>r t. r \<in> set rs \<and> transport_of r = Some t \<longrightarrow>
               sse_transport_g st = Some t \<and> t < transport_count st \<and> transport_count st = 1"
      using o sl by blast
    from 1 2 3 4 5 6
    show "(\<forall>r1 r2 a b. r1 \<in> set rs \<and> r2 \<in> set rs \<and> server_of r1 = Some a \<and> server_of r2 = Some b
         \<longrightarrow> a = b)
     \<and> (\<forall>rs1 a rs2 x. rs = rs1 @ GotMcpServer (Inr a) # rs2 \<and> GotMcpServer x \<in> set rs2
           \<longrightarrow> x = Inr a)
     \<and> (\<forall>r1 r2 a b. r1 \<in> set rs \<and> r2 \<in> set rs
           \<and> transport_of r1 = Some a \<and> transport_of r2 = Some b \<longrightarrow> a = b)
     \<and> server_count st \<le> 1 \<and> transport_count st \<le> 1
     \<and> (\<forall>r a. r \<in> set rs \<and> server_of r = Some a \<longrightarrow>
           mcp_server_g st = Some a \<and> a < server_count st \<and> server_count st = 1)
     \<and> (\<forall>r t. r \<in> set rs \<and> transport_of r = Some t \<longrightarrow>
           sse_transport_g st = Some t \<and> t < transport_count st \<and> transport_count st = 1)"
      by blast
  qed
  from trace get_mcp_server_creates [of ev s] get_sse_transport_creates [of s]
  show ?thesis by blast
qed

text \<open>
  The sample calls: the server returned last is the one returned first, and in the end the
  slots hold the server and the transport that the calls obtained, each the only object of
  its class. On the freshly loaded module each getter creates the object at address 0.
\<close>

theorem singletons_are_shared_witness:
  "fst (run_calls module_init sample_calls)
     = [GotMcpServer (Inl (Exception (py ''login failed''))),
        GotMcpServer (Inr 0),
        GotSseTransport 0,
        Dispatched (SseHandshake \<lparr>set_token_call = Some (py ''abc''), sse_result = Inr (0, 0)\<rparr>),
        GotMcpServer (Inr 0),
        GotSseTransport 0]
   \<and> server_count (snd (run_calls module_init sample_calls)) \<le> 1
   \<and> transport_count (snd (run_calls module_init sample_calls)) \<le> 1
   \<and> mcp_server_g (snd (run_calls module_init sample_calls)) = Some 0
   \<and> server_count (snd (run_calls module_init sample_calls)) = 1
   \<and> sse_transport_g (snd (run_calls module_init sample_calls)) = Some 0
   \<and> transport_count (snd (run_calls module_init sample_calls)) = 1
   \<and> get_sse_transport module_init
       = (0, module_init
              \<lparr>transport_heap := (transport_heap module_init)
                 (0 := \<lparr>endpoint = py ''/messages/'', sessions = []\<rparr>),
               transport_count := 1, sse_transport_g := Some 0\<rparr>)
   \<and> transport_heap (snd (get_sse_transport module_init)) 0
       = \<lparr>endpoint = py ''/messages/'', sessions = []\<rparr>
   \<and> transport_count (snd (get_sse_transport module_init)) = 1
   \<and> sse_transport_g (snd (get_sse_transport module_init)) = Some 0"
proof -
  let ?rs = "fst (run_calls module_init sample_calls)"
  let ?st = "snd (run_calls module_init sample_calls)"
  have r: "?rs
     = [GotMcpServer (Inl (Exception (py ''login failed''))),
        GotMcpServer (Inr 0),
        GotSseTransport 0,
        Dispatched (SseHandshake \<lparr>set_token_call = Some (py ''abc''), sse_result = Inr (0, 0)\<rparr>),
        GotMcpServer (Inr 0),
        GotSseTransport 0]"
    by (simp add: sample_calls_def create_app_def SSEMiddleware_call_def run_defs py_def)
  have h: "run_calls module_init sample_calls = (?rs, ?st)"
    by simp
  have m1: "GotMcpServer (Inr 0) \<in> set ?rs \<and> server_of (GotMcpServer (Inr 0)) = Some 0"
    using r by simp
  have m2: "GotSseTransport 0 \<in> set ?rs \<and> transport_of (GotSseTransport 0) = Some 0"
    using r by simp
  have g: "get_sse_transport module_init
       = (0, module_init
              \<lparr>transport_heap := (transport_heap module_init)
                 (0 := \<lparr>endpoint = py ''/messages/'', sessions = []\<rparr>),
               transport_count := 1, sse_transport_g := Some 0\<rparr>)"
    by (simp add: get_sse_transport_def module_init_def)
  have e: "sse_transport_g module_init = None \<and> transport_count module_init = 0"
    by (simp add: module_init_def)
  note t = singletons_are_shared [of sample_calls ?rs ?st _ module_init]
  have p1: "server_count ?st \<le> 1 \<and> transport_count ?st \<le> 1"
    using t h by blast
  have p2: "mcp_server_g ?st = Some 0 \<and> server_count ?st = 1"
    using t h m1 by blast
  have p3: "sse_transport_g ?st = Some 0 \<and> transport_count ?st = 1"
    using t h m2 by blast
  have p4: "fst (get_sse_transport module_init) = transport_count module_init
        \<and> transport_count (snd (get_sse_transport module_init))
            = Suc (transport_count module_init)
        \<and> transport_heap (snd (get_sse_transport module_init)) (fst (get_sse_transport module_init))
            = \<lparr>endpoint = py ''/messages/'', sessions = []\<rparr>
        \<and> sse_transport_g (snd (get_sse_transport module_init))
            = Some (fst (get_sse_transport module_init))"
    using t e by blast
  show ?thesis using r p1 p2 p3 p4 g e by simp
qed

subsection \<open>C2: injection of the session header\<close>

text \<open>
  Claim C2. A handshake calls \<open>set_token\<close> exactly when the \<open>X-Session-Token\<close> header
  carries a non-empty value (that decodes) and the shared server is not authenticated at
  that moment, that is, right after \<open>get_mcp_server\<close> returned it; the argument of the call
  is the decoded value. A handshake that finds the server authenticated, with or without the
  header, makes no such call and leaves every server object, hence credential and
  \<open>is_authenticated\<close>, as it found them. Consequently, in any sequence of calls, at most
  one handshake takes the shared server from unauthenticated to authenticated by a header;
  and when \<open>set_token\<close> always leaves the manager authenticated, at most one handshake
  calls it at all.
\<close>

theorem header_injection_guarded:
  "(\<forall>tok. set_token_call (fst (handle_sse ev st scope)) = Some tok \<longleftrightarrow>
      (\<exists>a st1 v. get_mcp_server ev st = (Inr a, st1)
         \<and> dict (get_headers scope) ''x-session-token'' = Some v \<and> v \<noteq> []
         \<and> decode v = Inr tok \<and> tok \<noteq> []
         \<and> \<not> is_authenticated (session_manager (server_heap st1 a))))
   \<and> (\<forall>a st1. get_mcp_server ev st = (Inr a, st1)
          \<and> is_authenticated (session_manager (server_heap st1 a)) \<longrightarrow>
        set_token_call (fst (handle_sse ev st scope)) = None
        \<and> mcp_server_g (snd (handle_sse ev st scope)) = Some a
        \<and> server_heap (snd (handle_sse ev st scope)) = server_heap st1)
   \<and> transitions st cs \<le> 1
   \<and> ((\<forall>c \<in> set cs. \<forall>v sm. is_authenticated (set_token (fst c) v sm)) \<longrightarrow>
        length (filter injected (fst (run_calls st cs))) \<le> 1)"
proof (intro conjI allI impI iffI)
  fix tok
  assume "set_token_call (fst (handle_sse ev st scope)) = Some tok"
  with handle_sse_injects
         [of ev st scope "fst (handle_sse ev st scope)" "snd (handle_sse ev st scope)" tok]
  show "\<exists>a st1 v. get_mcp_server ev st = (Inr a, st1)
         \<and> dict (get_headers scope) ''x-session-token'' = Some v \<and> v \<noteq> []
         \<and> decode v = Inr tok \<and> tok \<noteq> []
         \<and> \<not> is_authenticated (session_manager (server_heap st1 a))"
    by auto
next
  fix tok
  assume "\<exists>a st1 v. get_mcp_server ev st = (Inr a, st1)
         \<and> dict (get_headers scope) ''x-session-token'' = Some v \<and> v \<noteq> []
         \<and> decode v = Inr tok \<and> tok \<noteq> []
         \<and> \<not> is_authenticated (session_manager (server_heap st1 a))"
  then show "set_token_call (fst (handle_sse ev st scope)) = Some tok"
    using handle_sse_must_inject by blast
next
  show "transitions st cs \<le> 1" by (rule transitions_at_most_once)
next
  fix a st1
  assume h: "get_mcp_server ev st = (Inr a, st1)
               \<and> is_authenticated (session_manager (server_heap st1 a))"
  note r = handle_sse_authenticated
             [of ev st a st1 scope "fst (handle_sse ev st scope)" "snd (handle_sse ev st scope)"]
  from h r show "set_token_call (fst (handle_sse ev st scope)) = None" by simp
  from h r show "mcp_server_g (snd (handle_sse ev st scope)) = Some a" by simp
  from h r show "server_heap (snd (handle_sse ev st scope)) = server_heap st1" by simp
next
  assume "\<forall>c \<in> set cs. \<forall>v sm. is_authenticated (set_token (fst c) v sm)"
  then show "length (filter injected (fst (run_calls st cs))) \<le> 1"
    by (rule injected_at_most_once)
qed

text \<open>
  On a server built without credentials the first handshake injects its token; a second
  handshake with another token finds the server authenticated and keeps the first
  credential; the sample calls contain exactly one injection.
\<close>

theorem header_injection_guarded_witness:
  "set_token_call (fst (handle_sse (sample_env no_credentials sample_init) module_init
       (http_scope ''GET'' ''/sse'' [(''x-session-token'', ''abc'')]))) = Some (py ''abc'')
   \<and> (\<exists>a st1 v. get_mcp_server (sample_env no_credentials sample_init) module_init = (Inr a, st1)
         \<and> dict (get_headers (http_scope ''GET'' ''/sse'' [(''x-session-token'', ''abc'')]))
              ''x-session-token'' = Some v
         \<and> v \<noteq> [] \<and> decode v = Inr (py ''abc'')
         \<and> \<not> is_authenticated (session_manager (server_heap st1 a)))
   \<and> set_token_call (fst (handle_sse (sample_env no_credentials sample_init)
        (snd (handle_sse (sample_env no_credentials sample_init) module_init
               (http_scope ''GET'' ''/sse'' [(''x-session-token'', ''abc'')])))
        (http_scope ''GET'' ''/sse'' [(''x-session-token'', ''xyz'')]))) = None
   \<and> server_heap (snd (handle_sse (sample_env no_credentials sample_init)
        (snd (handle_sse (sample_env no_credentials sample_init) module_init
               (http_scope ''GET'' ''/sse'' [(''x-session-token'', ''abc'')])))
        (http_scope ''GET'' ''/sse'' [(''x-session-token'', ''xyz'')]))) 0
      = \<lparr>session_manager = \<lparr>credential = Some (py ''abc''), is_authenticated = True\<rparr>\<rparr>
   \<and> transitions module_init sample_calls \<le> 1
   \<and> length (filter injected (fst (run_calls module_init sample_calls))) \<le> 1
   \<and> filter injected (fst (run_calls module_init sample_calls))
      = [Dispatched (SseHandshake \<lparr>set_token_call = Some (py ''abc''), sse_result = Inr (0, 0)\<rparr>)]"
proof -
  let ?ev = "sample_env no_credentials sample_init"
  let ?abc = "http_scope ''GET'' ''/sse'' [(''x-session-token'', ''abc'')]"
  let ?xyz = "http_scope ''GET'' ''/sse'' [(''x-session-token'', ''xyz'')]"
  let ?st = "snd (handle_sse ?ev module_init ?abc)"
  have c1: "set_token_call (fst (handle_sse ?ev module_init ?abc)) = Some (py ''abc'')"
    by (simp add: run_defs py_def)
  have slot: "mcp_server_g ?st = Some 0"
    by (simp add: run_defs py_def)
  have obj: "server_heap ?st 0
      = \<lparr>session_manager = \<lparr>credential = Some (py ''abc''), is_authenticated = True\<rparr>\<rparr>"
    by (simp add: run_defs py_def)
  have g: "get_mcp_server ?ev ?st = (Inr 0, ?st)
             \<and> is_authenticated (session_manager (server_heap ?st 0))"
    using slot obj by (simp add: get_mcp_server_cached)
  have flip: "\<forall>c \<in> set sample_calls. \<forall>v sm. is_authenticated (set_token (fst c) v sm)"
    by (simp add: sample_calls_def sample_env_def SessionManager_set_token_def)
  have tr: "filter injected (fst (run_calls module_init sample_calls))
      = [Dispatched (SseHandshake \<lparr>set_token_call = Some (py ''abc''), sse_result = Inr (0, 0)\<rparr>)]"
    by (simp add: sample_calls_def create_app_def SSEMiddleware_call_def run_defs py_def)
  note t1 = header_injection_guarded [of ?ev module_init ?abc sample_calls]
  note t2 = header_injection_guarded [of ?ev ?st ?xyz sample_calls]
  have p1: "\<exists>a st1 v. get_mcp_server ?ev module_init = (Inr a, st1)
         \<and> dict (get_headers ?abc) ''x-session-token'' = Some v
         \<and> v \<noteq> [] \<and> decode v = Inr (py ''abc'')
         \<and> \<not> is_authenticated (session_manager (server_heap st1 a))"
    using t1 c1 by blast
  have p2: "set_token_call (fst (handle_sse ?ev ?st ?xyz)) = None
        \<and> server_heap (snd (handle_sse ?ev ?st ?xyz)) = server_heap ?st"
    using t2 g by blast
  have p3: "length (filter injected (fst (run_calls module_init sample_calls))) \<le> 1"
    using t1 flip by blast
  have p4: "transitions module_init sample_calls \<le> 1"
    using t1 by blast
  show ?thesis using c1 p1 p2 p3 p4 obj tr by simp
qed

subsection \<open>C9: an empty session header\<close>

text \<open>
  Claim C9. A handshake whose \<open>X-Session-Token\<close> header is the empty string makes no call
  of \<open>set_token\<close> and leaves the server objects as \<open>get_mcp_server\<close> returned them, whether
  the server is authenticated or not; and it does to the server side what a handshake
  without the header does. The two handshakes are equal altogether when the transport does
  not tell the two scopes apart.
\<close>

theorem empty_session_header_ignored:
  "dict (get_headers scope) ''x-session-token'' = Some []
     \<and> dict (get_headers scope') ''x-session-token'' = None \<longrightarrow>
   set_token_call (fst (handle_sse ev st scope)) = None
   \<and> server_heap (snd (handle_sse ev st scope)) = server_heap (snd (get_mcp_server ev st))
   \<and> set_token_call (fst (handle_sse ev st scope')) = None
   \<and> mcp_server_g (snd (handle_sse ev st scope')) = mcp_server_g (snd (handle_sse ev st scope))
   \<and> server_heap (snd (handle_sse ev st scope')) = server_heap (snd (handle_sse ev st scope))
   \<and> server_count (snd (handle_sse ev st scope')) = server_count (snd (handle_sse ev st scope))
   \<and> (connect_sse ev scope' = connect_sse ev scope \<longrightarrow>
        handle_sse ev st scope' = handle_sse ev st scope)"
proof
  assume h: "dict (get_headers scope) ''x-session-token'' = Some []
     \<and> dict (get_headers scope') ''x-session-token'' = None"
  have a: "(case dict (get_headers scope) ''x-session-token'' of None \<Rightarrow> [] | Some v \<Rightarrow> v) = []"
    using h by simp
  have b: "(case dict (get_headers scope') ''x-session-token'' of None \<Rightarrow> [] | Some v \<Rightarrow> v) = []"
    using h by simp
  show "set_token_call (fst (handle_sse ev st scope)) = None
   \<and> server_heap (snd (handle_sse ev st scope)) = server_heap (snd (get_mcp_server ev st))
   \<and> set_token_call (fst (handle_sse ev st scope')) = None
   \<and> mcp_server_g (snd (handle_sse ev st scope')) = mcp_server_g (snd (handle_sse ev st scope))
   \<and> server_heap (snd (handle_sse ev st scope')) = server_heap (snd (handle_sse ev st scope))
   \<and> server_count (snd (handle_sse ev st scope')) = server_count (snd (handle_sse ev st scope))
   \<and> (connect_sse ev scope' = connect_sse ev scope \<longrightarrow>
        handle_sse ev st scope' = handle_sse ev st scope)"
    unfolding handle_sse_no_token [OF a] handle_sse_no_token [OF b]
    by (auto split: prod.splits sum.splits dest: get_sse_transport_server_frame)
qed

text \<open>
  On a server built without credentials: the header is sent twice and the empty value comes
  last, against no header at all.
\<close>

theorem empty_session_header_ignored_witness:
  "set_token_call (fst (handle_sse (sample_env no_credentials sample_init) module_init
       (http_scope ''GET'' ''/sse'' [(''x-session-token'', ''abc''), (''x-session-token'', [])])))
     = None
   \<and> server_heap (snd (handle_sse (sample_env no_credentials sample_init) module_init
       (http_scope ''GET'' ''/sse'' [(''x-session-token'', ''abc''), (''x-session-token'', [])]))) 0
     = \<lparr>session_manager = \<lparr>credential = None, is_authenticated = False\<rparr>\<rparr>
   \<and> handle_sse (sample_env no_credentials sample_init) module_init
       (http_scope ''GET'' ''/sse'' [(''accept'', ''text/event-stream'')])
     = handle_sse (sample_env no_credentials sample_init) module_init
       (http_scope ''GET'' ''/sse'' [(''x-session-token'', ''abc''), (''x-session-token'', [])])"
proof -
  let ?ev = "sample_env no_credentials sample_init"
  let ?empty = "http_scope ''GET'' ''/sse'' [(''x-session-token'', ''abc''), (''x-session-token'', [])]"
  let ?none = "http_scope ''GET'' ''/sse'' [(''accept'', ''text/event-stream'')]"
  have h: "dict (get_headers ?empty) ''x-session-token'' = Some []
     \<and> dict (get_headers ?none) ''x-session-token'' = None"
    by (simp add: dict_def get_headers_def http_scope_def)
  have c: "connect_sse ?ev ?none = connect_sse ?ev ?empty"
    by (simp add: sample_env_def)
  have s: "server_heap (snd (get_mcp_server ?ev module_init)) 0
     = \<lparr>session_manager = \<lparr>credential = None, is_authenticated = False\<rparr>\<rparr>"
    by (simp add: run_defs)
  note t = empty_session_header_ignored [of ?empty ?none ?ev module_init]
  have p1: "set_token_call (fst (handle_sse ?ev module_init ?empty)) = None"
    using t h by blast
  have p2: "server_heap (snd (handle_sse ?ev module_init ?empty))
              = server_heap (snd (get_mcp_server ?ev module_init))"
    using t h by blast
  have p3: "handle_sse ?ev module_init ?none = handle_sse ?ev module_init ?empty"
    using t h c by blast
  show ?thesis using p1 p2 p3 s by simp
qed

subsection \<open>C6: the OAuth stub endpoints\<close>

text \<open>
  Claim C6, as amended. A \<open>GET\<close> or a \<open>POST\<close> on \<open>/oauth/authorize\<close>, and a \<open>POST\<close> on
  \<open>/oauth/token\<close>, is answered with status 400 and the fixed payload whose error code is
  \<open>unsupported_grant_type\<close> and whose description points to the \<open>X-Session-Token\<close> header,
  whatever the request body, the headers, the environment and the module state, which is
  left unchanged. The route of \<open>/oauth/token\<close> allows \<open>POST\<close> only: a \<open>GET\<close> on it does not
  reach the stub and is answered by the router with 405 Method Not Allowed.
\<close>

theorem oauth_stubs_fixed_error:
  "(scope_type scope = py ''http''
     \<and> (scope_path scope = Some (py ''/oauth/authorize'')
          \<and> (scope_method scope = py ''GET'' \<or> scope_method scope = py ''POST'')
        \<or> scope_path scope = Some (py ''/oauth/token'') \<and> scope_method scope = py ''POST'') \<longrightarrow>
   create_app ev st scope receive =
     (PassedThrough
        (Responded
           \<lparr>status_code = 400,
            content = JObj
              [(py ''error'', JStr (py ''unsupported_grant_type'')),
               (py ''error_description'', JStr (py ''Use X-Session-Token header''))]\<rparr>),
      st))
   \<and> (scope_type scope = py ''http''
        \<and> scope_path scope = Some (py ''/oauth/token'') \<and> scope_method scope = py ''GET'' \<longrightarrow>
      create_app ev st scope receive = (PassedThrough (MethodNotAllowed [py ''POST'']), st))"
  by (auto simp: create_app_def SSEMiddleware_call_def get_path_def starlette_app_def Let_def
      find_routes_full py_line_feed py_eq_iff Route_def oauth_authorize_def oauth_token_def
      routes_def path_matches_def)

theorem oauth_stubs_fixed_error_witness:
  "create_app (sample_env no_credentials sample_init) module_init
       (http_scope ''GET'' ''/oauth/authorize'' []) ''grant_type=password''
     = (PassedThrough
          (Responded
             \<lparr>status_code = 400,
              content = JObj
                [(py ''error'', JStr (py ''unsupported_grant_type'')),
                 (py ''error_description'', JStr (py ''Use X-Session-Token header''))]\<rparr>),
        module_init)
   \<and> create_app (sample_env no_credentials sample_init) module_init
       (http_scope ''POST'' ''/oauth/token'' []) []
     = (PassedThrough
          (Responded
             \<lparr>status_code = 400,
              content = JObj
                [(py ''error'', JStr (py ''unsupported_grant_type'')),
                 (py ''error_description'', JStr (py ''Use X-Session-Token header''))]\<rparr>),
        module_init)
   \<and> create_app (sample_env no_credentials sample_init) module_init
       (http_scope ''GET'' ''/oauth/token'' [(''accept'', ''*/*'')]) ''grant_type=password''
     = (PassedThrough (MethodNotAllowed [py ''POST'']), module_init)"
  using
    oauth_stubs_fixed_error
      [of "http_scope ''GET'' ''/oauth/authorize'' []" "sample_env no_credentials sample_init"
        module_init "''grant_type=password''"]
    oauth_stubs_fixed_error
      [of "http_scope ''POST'' ''/oauth/token'' []" "sample_env no_credentials sample_init"
        module_init "[]"]
    oauth_stubs_fixed_error
      [of "http_scope ''GET'' ''/oauth/token'' [(''accept'', ''*/*'')]"
        "sample_env no_credentials sample_init" module_init "''grant_type=password''"]
  by (simp add: http_scope_def py_eq_iff)

text \<open>
  As stated the claim fails for the token endpoint: its route allows \<open>POST\<close> only, so a
  \<open>GET\<close> never reaches the stub and the router answers 405 Method Not Allowed.
\<close>

theorem oauth_token_get_not_allowed:
  "create_app (sample_env no_credentials sample_init) module_init
       (http_scope ''GET'' ''/oauth/token'' []) []
     = (PassedThrough (MethodNotAllowed [py ''POST'']), module_init)
   \<and> fst (create_app (sample_env no_credentials sample_init) module_init
            (http_scope ''GET'' ''/oauth/token'' []) [])
       \<noteq> PassedThrough
           (Responded
              \<lparr>status_code = 400,
               content = JObj
                 [(py ''error'', JStr (py ''unsupported_grant_type'')),
                  (py ''error_description'', JStr (py ''Use X-Session-Token header''))]\<rparr>)"
  by (simp add: create_app_def SSEMiddleware_call_def get_path_def starlette_app_def Let_def
      http_scope_def py_line_feed py_eq_iff routes_def Route_def path_matches_def)

end
